theory Spec2Isabelle
  imports Complex_Main
begin

section \<open>Text\<close>

text \<open>
  Python \<open>str\<close> values are modelled as \<^typ>\<open>string\<close>, holding the UTF-8 bytes of
  the text: the non-ASCII literals of the source (Chinese text, emoji) are written as
  their bytes. \<open>py_len\<close> and \<open>py_take\<close> count code points, as \<open>len\<close> and slicing do.
\<close>

fun starts_with :: "string \<Rightarrow> string \<Rightarrow> bool" where
  "starts_with [] hay = True"
| "starts_with (n # ns) [] = False"
| "starts_with (n # ns) (h # hs) = (n = h \<and> starts_with ns hs)"

text \<open>
  The code points that \<open>str.isspace\<close> accepts, each as its UTF-8 bytes: the ASCII
  ones (U+0009 to U+000D, U+001C to U+001F, U+0020), then U+0085, U+00A0, U+1680,
  U+2000 to U+200A, U+2028, U+2029, U+202F, U+205F and U+3000.
\<close>

definition space_codes :: "string list" where
  "space_codes =
     [[CHR 0x09], [CHR 0x0A], [CHR 0x0B], [CHR 0x0C], [CHR 0x0D],
      [CHR 0x1C], [CHR 0x1D], [CHR 0x1E], [CHR 0x1F], [CHR 0x20],
      [CHR 0xC2, CHR 0x85], [CHR 0xC2, CHR 0xA0], [CHR 0xE1, CHR 0x9A, CHR 0x80],
      [CHR 0xE2, CHR 0x80, CHR 0x80], [CHR 0xE2, CHR 0x80, CHR 0x81],
      [CHR 0xE2, CHR 0x80, CHR 0x82], [CHR 0xE2, CHR 0x80, CHR 0x83],
      [CHR 0xE2, CHR 0x80, CHR 0x84], [CHR 0xE2, CHR 0x80, CHR 0x85],
      [CHR 0xE2, CHR 0x80, CHR 0x86], [CHR 0xE2, CHR 0x80, CHR 0x87],
      [CHR 0xE2, CHR 0x80, CHR 0x88], [CHR 0xE2, CHR 0x80, CHR 0x89],
      [CHR 0xE2, CHR 0x80, CHR 0x8A], [CHR 0xE2, CHR 0x80, CHR 0xA8],
      [CHR 0xE2, CHR 0x80, CHR 0xA9], [CHR 0xE2, CHR 0x80, CHR 0xAF],
      [CHR 0xE2, CHR 0x81, CHR 0x9F], [CHR 0xE3, CHR 0x80, CHR 0x80]]"

text \<open>
  The number of bytes of the white-space code point that \<open>s\<close> begins with, 0 when it
  begins with none; \<open>strip_front\<close> removes such code points while there is one.
\<close>

definition space_len :: "string list \<Rightarrow> string \<Rightarrow> nat" where
  "space_len codes s =
     (case find (\<lambda>p. starts_with p s) codes of None \<Rightarrow> 0 | Some p \<Rightarrow> length p)"

function strip_front :: "string list \<Rightarrow> string \<Rightarrow> string" where
  "strip_front codes s =
     (if space_len codes s = 0 then s else strip_front codes (drop (space_len codes s) s))"
  by pat_completeness auto
termination
proof (relation "measure (\<lambda>(codes, s). length s)")
  show "wf (measure (\<lambda>(codes, s). length s))" by simp
next
  fix codes :: "string list" and s :: string
  assume pos: "space_len codes s \<noteq> 0"
  have "s \<noteq> []"
  proof
    assume "s = []"
    then have "space_len codes s = 0"
      by (auto simp: space_len_def split: option.splits dest!: find_Some_iff[THEN iffD1]
          elim: starts_with.elims)
    with pos show False by simp
  qed
  with pos show "((codes, drop (space_len codes s) s), (codes, s)) \<in> measure (\<lambda>(codes, s). length s)"
    by simp
qed

declare strip_front.simps [simp del]

text \<open>
  \<open>str.strip()\<close>: the white-space code points are removed from the front, then from
  the back (read from the reversed bytes, against the reversed encodings).
\<close>

definition py_strip :: "string \<Rightarrow> string" where
  "py_strip s = rev (strip_front (map rev space_codes) (rev (strip_front space_codes s)))"

text \<open>
  \<open>str.upper()\<close> and \<open>str.lower()\<close> map the ASCII letters and leave every other byte.
  The source compares their results with ASCII words only (the intent codes, the file
  formats), and no code point beyond ASCII has an upper-case form that is one of the
  letters of the intent codes (dotless i gives \<open>I\<close>, long s gives \<open>S\<close>) or a lower-case
  form made of letters of the file formats (the Kelvin sign gives \<open>k\<close>), so these
  comparisons come out as in Python.
\<close>

definition upper_char :: "char \<Rightarrow> char" where
  "upper_char c =
     (let n = (of_char c :: nat) in if 97 \<le> n \<and> n \<le> 122 then char_of (n - 32) else c)"

definition py_upper :: "string \<Rightarrow> string" where
  "py_upper s = map upper_char s"

definition lower_char :: "char \<Rightarrow> char" where
  "lower_char c =
     (let n = (of_char c :: nat) in if 65 \<le> n \<and> n \<le> 90 then char_of (n + 32) else c)"

definition py_lower :: "string \<Rightarrow> string" where
  "py_lower s = map lower_char s"

fun py_join :: "string \<Rightarrow> string list \<Rightarrow> string" where
  "py_join sep [] = []"
| "py_join sep [x] = x"
| "py_join sep (x # y # ys) = x @ sep @ py_join sep (y # ys)"

text \<open>\<open>needle in hay\<close> on strings.\<close>

fun py_in :: "string \<Rightarrow> string \<Rightarrow> bool" where
  "py_in needle [] = (needle = [])"
| "py_in needle (h # hs) = (starts_with needle (h # hs) \<or> py_in needle hs)"

definition utf8_continuation :: "char \<Rightarrow> bool" where
  "utf8_continuation c = (let n = (of_char c :: nat) in 128 \<le> n \<and> n < 192)"

definition py_len :: "string \<Rightarrow> nat" where
  "py_len s = length (filter (\<lambda>c. \<not> utf8_continuation c) s)"

text \<open>\<open>s[:n]\<close>: the first \<open>n\<close> code points.\<close>

fun py_take :: "nat \<Rightarrow> string \<Rightarrow> string" where
  "py_take n [] = []"
| "py_take 0 (c # cs) = []"
| "py_take (Suc n) (c # cs) = c # takeWhile utf8_continuation cs @ py_take n (dropWhile utf8_continuation cs)"

text \<open>\<open>str(n)\<close> for a natural number.\<close>

function py_str_nat :: "nat \<Rightarrow> string" where
  "py_str_nat n =
     (if n < 10 then [char_of (48 + n)]
      else py_str_nat (n div 10) @ [char_of (48 + n mod 10)])"
  by pat_completeness auto
termination
  by (relation "measure id") auto

declare py_str_nat.simps [simp del]

section \<open>External collaborators\<close>

text \<open>
  Exceptions are values. \<open>APIError\<close> is the generation client's provider error,
  \<open>Timeout\<close> and \<open>HTTPError\<close> are those of the HTTP client, and
  \<open>OtherException\<close> stands for every other instance of Python's \<open>Exception\<close>.
\<close>

datatype exn = APIError | Timeout | HTTPError nat | OtherException

text \<open>
  A prompt sent to the generation service: the template of the source that is rendered,
  with the fields interpolated into it. The service is a black box, so the fixed wording
  of each template is not spelled out.
\<close>

datatype prompt =
    IntentPrompt string
  | RagPrompt string string
  | SearchSummaryPrompt string string
  | RealtimeFallbackPrompt string
  | DailyChatPrompt string string
  | ComparisonPrompt string
  | EvaluationPrompt string
  | RenamePrompt string string

text \<open>A vector entry: synthetic id, raw text and the metadata record of the source.\<close>

record chunk =
  chunk_id :: string
  document :: string
  source :: string
  chunk_index :: nat
  file_path :: string
  file_type :: string
  timestamp :: nat
  session_id :: string

text \<open>
  Everything outside the repository's code is a field of the environment:
  \<^item> \<open>llm prompt max_tokens temperature\<close>: the chat-completion call, its text or the
    exception it raises;
  \<^item> \<open>serpapi_api_key\<close>: the configured search key (\<open>os.getenv\<close>);
    \<open>http_get key query num attempt\<close>: the search request of the given attempt, answering
    with the snippets of \<open>organic_results\<close> (\<open>None\<close> when the key is absent from the
    reply) or raising; \<open>jitter attempt\<close>: the draw of \<open>random.uniform(0, 2)\<close>;
  \<^item> \<open>uuid_str s\<close>: \<open>str(uuid.UUID(s))\<close>, the canonical spelling, or \<open>None\<close> where
    the constructor raises; \<open>uuid4 n\<close>: the \<open>n\<close>-th identifier minted;
  \<^item> \<open>clock n\<close>: the \<open>n\<close>-th reading of \<open>datetime.now()\<close>, as an instant (the ISO
    text the code stores orders as the instant does);
  \<^item> \<open>distance query text\<close>: the cosine distance the vector index ranks by;
    \<open>query_error\<close>, \<open>collection_error\<close>, \<open>add_error\<close>: whether the vector store
    raises on that call;
  \<^item> \<open>loader path type\<close>: the document adapter with its timeout, \<open>None\<close> for every
    way it fails; \<open>split_documents\<close>: the text splitter; \<open>path_resolve\<close>:
    \<open>Path.resolve\<close>; \<open>fmt_percent stored n_chunks\<close>: the float formatting
    \<open>f"{stored / n_chunks * 100:.0f}"\<close>.
\<close>

record env =
  llm :: "prompt \<Rightarrow> nat \<Rightarrow> rat \<Rightarrow> exn + string"
  serpapi_api_key :: "string option"
  http_get :: "string \<Rightarrow> string \<Rightarrow> nat \<Rightarrow> nat \<Rightarrow> exn + string list option"
  jitter :: "nat \<Rightarrow> rat"
  uuid_str :: "string \<Rightarrow> string option"
  uuid4 :: "nat \<Rightarrow> string"
  clock :: "nat \<Rightarrow> nat"
  distance :: "string \<Rightarrow> string \<Rightarrow> rat"
  query_error :: "string \<Rightarrow> string \<Rightarrow> bool"
  collection_error :: "string \<Rightarrow> bool"
  add_error :: "string \<Rightarrow> chunk list \<Rightarrow> bool"
  loader :: "string \<Rightarrow> string \<Rightarrow> string list option"
  split_documents :: "string list \<Rightarrow> exn + string list"
  path_resolve :: "string \<Rightarrow> exn + string"
  fmt_percent :: "nat \<Rightarrow> nat \<Rightarrow> string"

text \<open>
  The mutable state: the relational tables the core uses, in insertion (rowid) order, the
  vector collections by name, the number of clock readings and identifiers consumed, and
  the trigger lines the session manager writes to its log.
\<close>

datatype event = AUTO_RENAME_CHECK string | SESSION_RENAMED string string

record world =
  sessions :: "(string \<times> string \<times> string \<times> nat) list"
  messages :: "(string \<times> string \<times> string \<times> nat) list"
  collections :: "string \<rightharpoonup> chunk list"
  ticks :: nat
  minted :: nat
  events :: "event list"

text \<open>The primitive write to the vector store, and the lookup of a collection's entries.\<close>

definition put_collection :: "string \<Rightarrow> chunk list \<Rightarrow> world \<Rightarrow> world" where
  "put_collection name entries w = w\<lparr>collections := (collections w)(name \<mapsto> entries)\<rparr>"

definition stored_in :: "world \<Rightarrow> string \<Rightarrow> chunk list" where
  "stored_in w name = (case collections w name of None \<Rightarrow> [] | Some entries \<Rightarrow> entries)"

text \<open>Clock readings and identifiers consumed in bulk.\<close>

definition advance_ticks :: "nat \<Rightarrow> world \<Rightarrow> world" where
  "advance_ticks n w = w\<lparr>ticks := ticks w + n\<rparr>"

definition advance_minted :: "nat \<Rightarrow> world \<Rightarrow> world" where
  "advance_minted n w = w\<lparr>minted := minted w + n\<rparr>"

definition empty_world :: world where
  "empty_world =
     \<lparr>sessions = [], messages = [], collections = Map.empty, ticks = 0, minted = 0,
      events = []\<rparr>"

section \<open>utils/llm_utils.py\<close>

text \<open>The reply of \<open>generate_text\<close> on a provider error: (Sorry, I cannot answer this question for now.)\<close>

definition LLM_API_ERROR_REPLY :: string where
  "LLM_API_ERROR_REPLY =
     [CHR 0xE6, CHR 0x8A, CHR 0xB1, CHR 0xE6, CHR 0xAD, CHR 0x89, CHR 0xEF, CHR 0xBC, CHR 0x8C,
     CHR 0xE6, CHR 0x88, CHR 0x91, CHR 0xE6, CHR 0x9A, CHR 0x82, CHR 0xE6, CHR 0x97, CHR 0xB6,
     CHR 0xE6, CHR 0x97, CHR 0xA0, CHR 0xE6, CHR 0xB3, CHR 0x95, CHR 0xE5, CHR 0x9B, CHR 0x9E,
     CHR 0xE7, CHR 0xAD, CHR 0x94, CHR 0xE8, CHR 0xBF, CHR 0x99, CHR 0xE4, CHR 0xB8, CHR 0xAA,
     CHR 0xE9, CHR 0x97, CHR 0xAE, CHR 0xE9, CHR 0xA2, CHR 0x98, CHR 0xE3, CHR 0x80, CHR 0x82,
     CHR 0xF0, CHR 0x9F, CHR 0x98, CHR 0x85]"

text \<open>The reply of \<open>generate_text\<close> on any other exception: (An error occurred while processing your request.)\<close>

definition LLM_EXCEPTION_REPLY :: string where
  "LLM_EXCEPTION_REPLY =
     [CHR 0xE5, CHR 0xA4, CHR 0x84, CHR 0xE7, CHR 0x90, CHR 0x86, CHR 0xE6, CHR 0x82, CHR 0xA8,
     CHR 0xE7, CHR 0x9A, CHR 0x84, CHR 0xE8, CHR 0xAF, CHR 0xB7, CHR 0xE6, CHR 0xB1, CHR 0x82,
     CHR 0xE6, CHR 0x97, CHR 0xB6, CHR 0xE5, CHR 0x8F, CHR 0x91, CHR 0xE7, CHR 0x94, CHR 0x9F,
     CHR 0xE4, CHR 0xBA, CHR 0x86, CHR 0xE9, CHR 0x94, CHR 0x99, CHR 0xE8, CHR 0xAF, CHR 0xAF,
     CHR 0xE3, CHR 0x80, CHR 0x82, CHR 0xF0, CHR 0x9F, CHR 0x98, CHR 0x85]"

text \<open>
  \<open>LLMUtils.generate_text\<close>: the completion is stripped; a provider error and any other
  exception each become a fixed reply.
\<close>

definition generate_text :: "env \<Rightarrow> prompt \<Rightarrow> nat \<Rightarrow> rat \<Rightarrow> string" where
  "generate_text E p max_tokens temperature =
     (case llm E p max_tokens temperature of
        Inr content \<Rightarrow> py_strip content
      | Inl APIError \<Rightarrow> LLM_API_ERROR_REPLY
      | Inl _ \<Rightarrow> LLM_EXCEPTION_REPLY)"

definition valid_intents :: "string list" where
  "valid_intents = [''A'', ''B'', ''C'', ''D'', ''E'', ''F'', ''G'', ''H'', ''J'', ''K'']"

text \<open>\<open>LLMUtils.classify_intent\<close>.\<close>

definition classify_intent :: "env \<Rightarrow> string \<Rightarrow> string" where
  "classify_intent E user_input =
     (let intent = generate_text E (IntentPrompt user_input) 2 (1 / 10);
          intent = py_upper (py_strip intent)
      in if intent \<in> set valid_intents then intent else ''D'')"

section \<open>modules/intent_recognition.py\<close>

text \<open>\<open>config.VALID_INTENTS\<close>.\<close>

definition VALID_INTENTS :: "string list" where
  "VALID_INTENTS = [''A'', ''B'', ''C'', ''D'', ''E'', ''F'', ''G'', ''H'', ''J'', ''K'']"

text \<open>
  \<open>IntentRecognizer.recognize\<close>. Its \<open>except\<close> branch returns \<open>"D"\<close> as well; no call
  inside the \<open>try\<close> raises, since \<open>generate_text\<close> has converted every exception of
  the completion call already.
\<close>

definition recognize :: "env \<Rightarrow> string \<Rightarrow> string" where
  "recognize E user_input =
     (let intent = classify_intent E user_input
      in if intent \<notin> set VALID_INTENTS then ''D'' else intent)"

section \<open>modules/web_search.py\<close>

text \<open>(Web search is unavailable, please configure the API key)\<close>

definition SEARCH_NO_KEY_REPLY :: string where
  "SEARCH_NO_KEY_REPLY =
     [CHR 0xE7, CHR 0xBD, CHR 0x91, CHR 0xE7, CHR 0xBB, CHR 0x9C, CHR 0xE6, CHR 0x90, CHR 0x9C,
     CHR 0xE7, CHR 0xB4, CHR 0xA2, CHR 0xE5, CHR 0x8A, CHR 0x9F, CHR 0xE8, CHR 0x83, CHR 0xBD,
     CHR 0xE4, CHR 0xB8, CHR 0x8D, CHR 0xE5, CHR 0x8F, CHR 0xAF, CHR 0xE7, CHR 0x94, CHR 0xA8,
     CHR 0xEF, CHR 0xBC, CHR 0x8C, CHR 0xE8, CHR 0xAF, CHR 0xB7, CHR 0xE9, CHR 0x85, CHR 0x8D,
     CHR 0xE7, CHR 0xBD, CHR 0xAE] @ ''API'' @ [CHR 0xE5, CHR 0xAF, CHR 0x86, CHR 0xE9,
     CHR 0x92, CHR 0xA5]"

text \<open>(No relevant information was found)\<close>

definition SEARCH_NO_RESULTS_REPLY :: string where
  "SEARCH_NO_RESULTS_REPLY =
     [CHR 0xE6, CHR 0xB2, CHR 0xA1, CHR 0xE6, CHR 0x9C, CHR 0x89, CHR 0xE6, CHR 0x90, CHR 0x9C,
     CHR 0xE7, CHR 0xB4, CHR 0xA2, CHR 0xE5, CHR 0x88, CHR 0xB0, CHR 0xE7, CHR 0x9B, CHR 0xB8,
     CHR 0xE5, CHR 0x85, CHR 0xB3, CHR 0xE4, CHR 0xBF, CHR 0xA1, CHR 0xE6, CHR 0x81, CHR 0xAF]"

text \<open>The marker after the last attempt: (After several attempts the web search still fails, please try again later)\<close>

definition SEARCH_EXHAUSTED_REPLY :: string where
  "SEARCH_EXHAUSTED_REPLY =
     [CHR 0xE5, CHR 0xA4, CHR 0x9A, CHR 0xE6, CHR 0xAC, CHR 0xA1, CHR 0xE5, CHR 0xB0, CHR 0x9D,
     CHR 0xE8, CHR 0xAF, CHR 0x95, CHR 0xE5, CHR 0x90, CHR 0x8E, CHR 0xEF, CHR 0xBC, CHR 0x8C,
     CHR 0xE7, CHR 0xBD, CHR 0x91, CHR 0xE7, CHR 0xBB, CHR 0x9C, CHR 0xE6, CHR 0x90, CHR 0x9C,
     CHR 0xE7, CHR 0xB4, CHR 0xA2, CHR 0xE4, CHR 0xBB, CHR 0x8D, CHR 0xE7, CHR 0x84, CHR 0xB6,
     CHR 0xE5, CHR 0xA4, CHR 0xB1, CHR 0xE8, CHR 0xB4, CHR 0xA5, CHR 0xEF, CHR 0xBC, CHR 0x8C,
     CHR 0xE8, CHR 0xAF, CHR 0xB7, CHR 0xE7, CHR 0xA8, CHR 0x8D, CHR 0xE5, CHR 0x90, CHR 0x8E,
     CHR 0xE5, CHR 0x86, CHR 0x8D, CHR 0xE8, CHR 0xAF, CHR 0x95]"

text \<open>What a search call does to the outside: requests sent and pauses slept.\<close>

datatype net_event = HTTP_GET nat | SLEEP rat

text \<open>\<open>not self.api_key\<close>: no key, or the empty string.\<close>

definition api_key_missing :: "string option \<Rightarrow> bool" where
  "api_key_missing k = (case k of None \<Rightarrow> True | Some s \<Rightarrow> s = [])"

text \<open>
  The retry loop of \<open>WebSearch.search\<close> over the attempt numbers still to run. A reply
  ends the loop; every exception is followed by a pause of the base delay plus jitter
  and the next attempt.
\<close>

fun search_attempts ::
  "env \<Rightarrow> string \<Rightarrow> string \<Rightarrow> nat \<Rightarrow> nat \<Rightarrow> nat list \<Rightarrow> string \<times> net_event list" where
  "search_attempts E key query num_results retry_delay [] = (SEARCH_EXHAUSTED_REPLY, [])"
| "search_attempts E key query num_results retry_delay (attempt # rest) =
     (case http_get E key query num_results attempt of
        Inr (Some snippets) \<Rightarrow>
          (py_join [CHR 0x0A, CHR 0x0A] (take num_results snippets), [HTTP_GET attempt])
      | Inr None \<Rightarrow> (SEARCH_NO_RESULTS_REPLY, [HTTP_GET attempt])
      | Inl e \<Rightarrow>
          (let (reply, trace) = search_attempts E key query num_results retry_delay rest
           in (reply, HTTP_GET attempt # SLEEP (of_nat retry_delay + jitter E attempt) # trace)))"

text \<open>\<open>WebSearch.search\<close>, with the attempts \<open>range(1, max_retries + 2)\<close>.\<close>

definition search ::
  "env \<Rightarrow> string \<Rightarrow> nat \<Rightarrow> nat \<Rightarrow> nat \<Rightarrow> string \<times> net_event list" where
  "search E query num_results max_retries retry_delay =
     (case serpapi_api_key E of
        None \<Rightarrow> (SEARCH_NO_KEY_REPLY, [])
      | Some key \<Rightarrow>
          if key = [] then (SEARCH_NO_KEY_REPLY, [])
          else search_attempts E key query num_results retry_delay [1 ..< max_retries + 2])"

text \<open>\<open>WebSearch.summarize_search_results\<close>, with the defaults of \<open>search\<close>.\<close>

definition summarize_search_results :: "env \<Rightarrow> string \<Rightarrow> string" where
  "summarize_search_results E query =
     (let search_results = fst (search E query 5 3 5)
      in generate_text E (SearchSummaryPrompt query search_results) 1024 (7 / 10))"

section \<open>modules/daily_chat.py\<close>

text \<open>(No conversation history)\<close>

definition NO_HISTORY_TEXT :: string where
  "NO_HISTORY_TEXT =
     [CHR 0xE6, CHR 0x97, CHR 0xA0, CHR 0xE5, CHR 0xAF, CHR 0xB9, CHR 0xE8, CHR 0xAF, CHR 0x9D,
     CHR 0xE5, CHR 0x8E, CHR 0x86, CHR 0xE5, CHR 0x8F, CHR 0xB2]"

text \<open>The three words looked for in a search summary: (unavailable),\<close>

definition KW_UNAVAILABLE :: string where
  "KW_UNAVAILABLE =
     [CHR 0xE4, CHR 0xB8, CHR 0x8D, CHR 0xE5, CHR 0x8F, CHR 0xAF, CHR 0xE7, CHR 0x94, CHR 0xA8]"

text \<open>(error),\<close>

definition KW_ERROR :: string where
  "KW_ERROR =
     [CHR 0xE9, CHR 0x94, CHR 0x99, CHR 0xE8, CHR 0xAF, CHR 0xAF]"

text \<open>(timeout).\<close>

definition KW_TIMEOUT :: string where
  "KW_TIMEOUT =
     [CHR 0xE8, CHR 0xB6, CHR 0x85, CHR 0xE6, CHR 0x97, CHR 0xB6]"

definition realtime_keywords :: "string list" where
  "realtime_keywords =
     [
      [CHR 0xE4, CHR 0xBB, CHR 0x8A, CHR 0xE5, CHR 0xA4, CHR 0xA9],
      [CHR 0xE6, CHR 0x98, CHR 0xA8, CHR 0xE5, CHR 0xA4, CHR 0xA9],
      [CHR 0xE6, CHR 0x98, CHR 0x8E, CHR 0xE5, CHR 0xA4, CHR 0xA9],
      [CHR 0xE5, CHR 0x88, CHR 0x9A, CHR 0xE5, CHR 0x88, CHR 0x9A],
      [CHR 0xE6, CHR 0x9C, CHR 0x80, CHR 0xE6, CHR 0x96, CHR 0xB0],
      [CHR 0xE5, CHR 0xAE, CHR 0x9E, CHR 0xE6, CHR 0x97, CHR 0xB6],
      [CHR 0xE7, CHR 0x8E, CHR 0xB0, CHR 0xE5, CHR 0x9C, CHR 0xA8],
      [CHR 0xE5, CHR 0x88, CHR 0x9A, CHR 0xE5, CHR 0x88, CHR 0x9A],
      [CHR 0xE7, CHR 0x9B, CHR 0xAE, CHR 0xE5, CHR 0x89, CHR 0x8D],
      [CHR 0xE4, CHR 0xBB, CHR 0x8A, CHR 0xE5, CHR 0xA4, CHR 0xA9,
       CHR 0xE6, CHR 0x97, CHR 0xA9, CHR 0xE4, CHR 0xB8, CHR 0x8A],
      [CHR 0xE4, CHR 0xBB, CHR 0x8A, CHR 0xE5, CHR 0xA4, CHR 0xA9,
       CHR 0xE4, CHR 0xB8, CHR 0x8B, CHR 0xE5, CHR 0x8D, CHR 0x88],
      [CHR 0xE4, CHR 0xBB, CHR 0x8A, CHR 0xE5, CHR 0xA4, CHR 0xA9,
       CHR 0xE6, CHR 0x99, CHR 0x9A, CHR 0xE4, CHR 0xB8, CHR 0x8A],
      [CHR 0xE6, CHR 0x98, CHR 0xA8, CHR 0xE5, CHR 0xA4, CHR 0xA9,
       CHR 0xE6, CHR 0x97, CHR 0xA9, CHR 0xE4, CHR 0xB8, CHR 0x8A],
      [CHR 0xE6, CHR 0x98, CHR 0xA8, CHR 0xE5, CHR 0xA4, CHR 0xA9,
       CHR 0xE4, CHR 0xB8, CHR 0x8B, CHR 0xE5, CHR 0x8D, CHR 0x88]]"

definition is_realtime_question :: "string \<Rightarrow> bool" where
  "is_realtime_question text = list_ex (\<lambda>keyword. py_in keyword text) realtime_keywords"

text \<open>\<open>history[-5:]\<close>\<close>

definition last_n :: "nat \<Rightarrow> 'a list \<Rightarrow> 'a list" where
  "last_n n xs = drop (length xs - n) xs"

definition build_context :: "(string \<times> string) list \<Rightarrow> string" where
  "build_context history =
     (if history = [] then NO_HISTORY_TEXT
      else py_join [CHR 0x0A] (map (\<lambda>(role, content). role @ '': '' @ content) (last_n 5 history)))"

text \<open>
  \<open>DailyChat.generate_response\<close>. The calls inside its \<open>try\<close> do not raise, so the
  fixed reply of its \<open>except\<close> branch is never produced.
\<close>

definition generate_response :: "env \<Rightarrow> string \<Rightarrow> (string \<times> string) list \<Rightarrow> string" where
  "generate_response E user_input history =
     (if is_realtime_question user_input then
        (let search_result = summarize_search_results E user_input
         in if py_in KW_UNAVAILABLE search_result \<or> py_in KW_ERROR search_result
               \<or> py_in KW_TIMEOUT search_result
            then generate_text E (RealtimeFallbackPrompt user_input) 1024 (7 / 10)
            else search_result)
      else generate_text E (DailyChatPrompt (build_context history) user_input) 1024 (7 / 10))"

section \<open>modules/professional_qa.py\<close>

text \<open>
  \<open>answer_comparison\<close> wraps its call in \<open>try\<close>; \<open>generate_text\<close> does not raise, so the
  fixed reply of the \<open>except\<close> branch is never produced.
\<close>

definition answer_comparison :: "env \<Rightarrow> string \<Rightarrow> string" where
  "answer_comparison E question = generate_text E (ComparisonPrompt question) 1024 (7 / 10)"

definition answer_evaluation :: "env \<Rightarrow> string \<Rightarrow> string" where
  "answer_evaluation E question = generate_text E (EvaluationPrompt question) 1024 (7 / 10)"

section \<open>modules/rag.py\<close>

text \<open>The context block of a retrieval without result: (No relevant context information)\<close>

definition NO_CONTEXT_TEXT :: string where
  "NO_CONTEXT_TEXT =
     [CHR 0xF0, CHR 0x9F, CHR 0x93, CHR 0xAD] @ '' '' @ [CHR 0xE6, CHR 0x97, CHR 0xA0,
     CHR 0xE7, CHR 0x9B, CHR 0xB8, CHR 0xE5, CHR 0x85, CHR 0xB3, CHR 0xE4, CHR 0xB8, CHR 0x8A,
     CHR 0xE4, CHR 0xB8, CHR 0x8B, CHR 0xE6, CHR 0x96, CHR 0x87, CHR 0xE4, CHR 0xBF, CHR 0xA1,
     CHR 0xE6, CHR 0x81, CHR 0xAF]"

definition collection_name :: "string \<Rightarrow> string" where
  "collection_name sid_str = ''session_'' @ sid_str"

text \<open>
  \<open>collection.query\<close>: the \<open>n_results\<close> entries of the collection nearest to the query.
\<close>

definition collection_query :: "env \<Rightarrow> chunk list \<Rightarrow> string \<Rightarrow> nat \<Rightarrow> chunk list" where
  "collection_query E entries query_text n_results =
     take n_results (sort_key (\<lambda>c. distance E query_text (document c)) entries)"

text \<open>
  The body of \<open>RAGSystem.retrieve\<close> up to the query result, which holds documents and
  metadata. An identifier that is no UUID gives no result. A missing collection is created
  empty (unless the store raises) and gives no result. A lookup or query that raises
  gives no result.
\<close>

definition retrieve_results :: "env \<Rightarrow> string \<Rightarrow> string \<Rightarrow> nat \<Rightarrow> world \<Rightarrow> chunk list \<times> world" where
  "retrieve_results E query_text sid top_k w =
     (case uuid_str E sid of
        None \<Rightarrow> ([], w)
      | Some u \<Rightarrow>
          (let name = collection_name sid in
           case collections w name of
             None \<Rightarrow>
               if collection_error E name then ([], w)
               else ([], put_collection name [] w)
           | Some entries \<Rightarrow>
               if collection_error E name \<or> query_error E name query_text then ([], w)
               else (collection_query E entries query_text top_k, w)))"

text \<open>\<open>RAGSystem.retrieve\<close>: the texts of the result.\<close>

definition retrieve :: "env \<Rightarrow> string \<Rightarrow> string \<Rightarrow> nat \<Rightarrow> world \<Rightarrow> string list \<times> world" where
  "retrieve E query_text sid top_k w =
     (let (results, w') = retrieve_results E query_text sid top_k w
      in (map document results, w'))"

definition generate_answer :: "env \<Rightarrow> string \<Rightarrow> string list \<Rightarrow> string" where
  "generate_answer E query_text context =
     (let context_str =
        (if context \<noteq> [] then py_join [CHR 0x0A, CHR 0x0A] context else NO_CONTEXT_TEXT)
      in generate_text E (RagPrompt query_text context_str) 1024 (7 / 10))"

text \<open>
  \<open>RAGSystem.query\<close>. Neither step raises: \<open>retrieve\<close> and \<open>generate_answer\<close>
  catch every exception themselves.
\<close>

definition rag_query :: "env \<Rightarrow> string \<Rightarrow> string \<Rightarrow> world \<Rightarrow> string \<times> world" where
  "rag_query E question sid w =
     (let (context_docs, w') = retrieve E question sid 5 w
      in (generate_answer E question context_docs, w'))"

section \<open>modules/intent_router.py\<close>

text \<open>The static clarification message: (Sorry, I cannot tell what kind of question this is for now. Please try to ask in a clearer way.)\<close>

definition UNKNOWN_INTENT_REPLY :: string where
  "UNKNOWN_INTENT_REPLY =
     [CHR 0xE6, CHR 0x8A, CHR 0xB1, CHR 0xE6, CHR 0xAD, CHR 0x89, CHR 0xEF, CHR 0xBC, CHR 0x8C,
     CHR 0xE6, CHR 0x88, CHR 0x91, CHR 0xE6, CHR 0x9A, CHR 0x82, CHR 0xE6, CHR 0x97, CHR 0xB6,
     CHR 0xE6, CHR 0x97, CHR 0xA0, CHR 0xE6, CHR 0xB3, CHR 0x95, CHR 0xE7, CHR 0x90, CHR 0x86,
     CHR 0xE8, CHR 0xA7, CHR 0xA3, CHR 0xE6, CHR 0x82, CHR 0xA8, CHR 0xE7, CHR 0x9A, CHR 0x84,
     CHR 0xE9, CHR 0x97, CHR 0xAE, CHR 0xE9, CHR 0xA2, CHR 0x98, CHR 0xE7, CHR 0xB1, CHR 0xBB,
     CHR 0xE5, CHR 0x9E, CHR 0x8B, CHR 0xE3, CHR 0x80, CHR 0x82, CHR 0xF0, CHR 0x9F, CHR 0xA4,
     CHR 0x94] @ '' '' @ [CHR 0xE8, CHR 0xAF, CHR 0xB7, CHR 0xE5, CHR 0xB0, CHR 0x9D, CHR 0xE8,
     CHR 0xAF, CHR 0x95, CHR 0xE7, CHR 0x94, CHR 0xA8, CHR 0xE6, CHR 0x9B, CHR 0xB4, CHR 0xE6,
     CHR 0xB8, CHR 0x85, CHR 0xE6, CHR 0x99, CHR 0xB0, CHR 0xE7, CHR 0x9A, CHR 0x84, CHR 0xE6,
     CHR 0x96, CHR 0xB9, CHR 0xE5, CHR 0xBC, CHR 0x8F, CHR 0xE6, CHR 0x8F, CHR 0x90, CHR 0xE9,
     CHR 0x97, CHR 0xAE, CHR 0xE3, CHR 0x80, CHR 0x82]"

text \<open>The static apology message: (Sorry, there was a problem handling your request. Please try again later.)\<close>

definition HANDLE_ERROR_REPLY :: string where
  "HANDLE_ERROR_REPLY =
     [CHR 0xE6, CHR 0x8A, CHR 0xB1, CHR 0xE6, CHR 0xAD, CHR 0x89, CHR 0xEF, CHR 0xBC, CHR 0x8C,
     CHR 0xE5, CHR 0xA4, CHR 0x84, CHR 0xE7, CHR 0x90, CHR 0x86, CHR 0xE6, CHR 0x82, CHR 0xA8,
     CHR 0xE7, CHR 0x9A, CHR 0x84, CHR 0xE8, CHR 0xAF, CHR 0xB7, CHR 0xE6, CHR 0xB1, CHR 0x82,
     CHR 0xE6, CHR 0x97, CHR 0xB6, CHR 0xE9, CHR 0x81, CHR 0x87, CHR 0xE5, CHR 0x88, CHR 0xB0,
     CHR 0xE4, CHR 0xBA, CHR 0x86, CHR 0xE9, CHR 0x97, CHR 0xAE, CHR 0xE9, CHR 0xA2, CHR 0x98,
     CHR 0xE3, CHR 0x80, CHR 0x82, CHR 0xF0, CHR 0x9F, CHR 0x98, CHR 0x85] @ '' '' @ [CHR 0xE8,
     CHR 0xAF, CHR 0xB7, CHR 0xE7, CHR 0xA8, CHR 0x8D, CHR 0xE5, CHR 0x90, CHR 0x8E, CHR 0xE5,
     CHR 0x86, CHR 0x8D, CHR 0xE8, CHR 0xAF, CHR 0x95, CHR 0xE3, CHR 0x80, CHR 0x82]"

text \<open>
  A handler takes the user text, the session id and the history (a list of role and
  content; an absent history is the empty list) and returns its reply or raises; it may
  touch the vector store. The handlers of the table below call functions
  that catch their own exceptions, so the fixed replies of the \<open>except\<close> branches in
  \<open>_handle_course_question\<close> and \<open>_handle_file_question\<close> are never produced.
\<close>

type_synonym handler =
  "string \<Rightarrow> string \<Rightarrow> (string \<times> string) list \<Rightarrow> world \<Rightarrow> (exn + string) \<times> world"

definition handle_course_question :: "env \<Rightarrow> handler" where
  "handle_course_question E user_input sid history w =
     (let (answer, w') = rag_query E user_input sid w in (Inr answer, w'))"

definition handle_daily_chat :: "env \<Rightarrow> handler" where
  "handle_daily_chat E user_input sid history w =
     (Inr (generate_response E user_input history), w)"

definition handle_definition_question :: "env \<Rightarrow> handler" where
  "handle_definition_question E user_input sid history w =
     (Inr (summarize_search_results E user_input), w)"

definition handle_method_question :: "env \<Rightarrow> handler" where
  "handle_method_question E user_input sid history w =
     (Inr (summarize_search_results E user_input), w)"

definition handle_comparison_question :: "env \<Rightarrow> handler" where
  "handle_comparison_question E user_input sid history w =
     (Inr (answer_comparison E user_input), w)"

definition handle_evaluation_question :: "env \<Rightarrow> handler" where
  "handle_evaluation_question E user_input sid history w =
     (Inr (answer_evaluation E user_input), w)"

definition handle_other_question :: "env \<Rightarrow> handler" where
  "handle_other_question E user_input sid history w =
     (Inr (summarize_search_results E user_input), w)"

definition handle_file_question :: "env \<Rightarrow> handler" where
  "handle_file_question E user_input sid history w =
     (let (answer, w') = rag_query E user_input sid w in (Inr answer, w'))"

definition handle_unknown_intent :: string where
  "handle_unknown_intent = UNKNOWN_INTENT_REPLY"

definition handle_error :: string where
  "handle_error = HANDLE_ERROR_REPLY"

text \<open>The table of \<open>IntentRouter.__init__\<close>.\<close>

definition intent_handlers :: "env \<Rightarrow> string \<rightharpoonup> handler" where
  "intent_handlers E =
     map_of
       [(''A'', handle_course_question E),
        (''C'', handle_daily_chat E),
        (''E'', handle_definition_question E),
        (''F'', handle_method_question E),
        (''G'', handle_comparison_question E),
        (''H'', handle_evaluation_question E),
        (''J'', handle_other_question E),
        (''K'', handle_file_question E)]"

text \<open>
  \<open>IntentRouter.route\<close> over a handler table: the lookup, the fallback for a code without
  entry, and the \<open>try\<close>/\<open>except Exception\<close> around the handler call.
\<close>

definition route_with ::
  "(string \<rightharpoonup> handler) \<Rightarrow> string \<Rightarrow> string \<Rightarrow> string \<Rightarrow> (string \<times> string) list \<Rightarrow> world
     \<Rightarrow> (exn + string) \<times> world" where
  "route_with handlers intent user_input sid history w =
     (case handlers intent of
        None \<Rightarrow> (Inr handle_unknown_intent, w)
      | Some handler \<Rightarrow>
          (case handler user_input sid history w of
             (Inr result, w') \<Rightarrow> (Inr result, w')
           | (Inl e, w') \<Rightarrow> (Inr handle_error, w')))"

definition route ::
  "env \<Rightarrow> string \<Rightarrow> string \<Rightarrow> string \<Rightarrow> (string \<times> string) list \<Rightarrow> world \<Rightarrow> (exn + string) \<times> world" where
  "route E = route_with (intent_handlers E)"

section \<open>utils/database.py\<close>

text \<open>
  Each statement is modelled by its effect on the tables. The two writers catch
  \<open>sqlite3.Error\<close> and return \<open>False\<close>, with nothing stored: the engine raises it
  where the \<open>INSERT\<close> violates a constraint, which only the primary key of \<open>sessions\<close>
  can do, and where the engine itself refuses the statement (a locked or full database,
  an I/O error), which the argument \<open>refused\<close> tells. \<open>ORDER BY ts\<close> keeps rows of
  equal timestamp in insertion order.
\<close>

definition db_create_session ::
  "bool \<Rightarrow> string \<Rightarrow> string \<Rightarrow> string \<Rightarrow> nat \<Rightarrow> world \<Rightarrow> bool \<times> world" where
  "db_create_session refused sid phone title created w =
     (if refused \<or> sid \<in> set (map fst (sessions w)) then (False, w)
      else (True, w\<lparr>sessions := sessions w @ [(sid, phone, title, created)]\<rparr>))"

definition db_get_sessions :: "world \<Rightarrow> string \<Rightarrow> (string \<times> string \<times> nat) list" where
  "db_get_sessions w phone =
     rev (sort_key (\<lambda>(sid, title, created). created)
            (map (\<lambda>(sid, p, title, created). (sid, title, created))
               (filter (\<lambda>(sid, p, title, created). p = phone) (sessions w))))"

definition db_add_message ::
  "bool \<Rightarrow> string \<Rightarrow> string \<Rightarrow> string \<Rightarrow> nat \<Rightarrow> world \<Rightarrow> bool \<times> world" where
  "db_add_message refused sid role content ts w =
     (if refused then (False, w)
      else (True, w\<lparr>messages := messages w @ [(sid, role, content, ts)]\<rparr>))"

definition db_get_messages :: "world \<Rightarrow> string \<Rightarrow> nat option \<Rightarrow> (string \<times> string \<times> nat) list" where
  "db_get_messages w sid limit =
     (let rows = sort_key (\<lambda>(role, content, ts). ts)
                   (map (\<lambda>(s, role, content, ts). (role, content, ts))
                      (filter (\<lambda>(s, role, content, ts). s = sid) (messages w)))
      in case limit of None \<Rightarrow> rows | Some n \<Rightarrow> take n rows)"

section \<open>modules/chat_management.py\<close>

text \<open>The welcome message, \<open>config.i18n.get('new_session_created')\<close> in the configured language: (Hello! Glad to be of service!)\<close>

definition new_session_created :: string where
  "new_session_created =
     [CHR 0xF0, CHR 0x9F, CHR 0x91, CHR 0x8B] @ '' '' @ [CHR 0xE5, CHR 0x90, CHR 0x8C,
     CHR 0xE5, CHR 0xAD, CHR 0xA6, CHR 0xE6, CHR 0x82, CHR 0xA8, CHR 0xE5, CHR 0xA5, CHR 0xBD,
     CHR 0xEF, CHR 0xBC, CHR 0x81, CHR 0xE5, CHR 0xBE, CHR 0x88, CHR 0xE9, CHR 0xAB, CHR 0x98,
     CHR 0xE5, CHR 0x85, CHR 0xB4, CHR 0xE4, CHR 0xB8, CHR 0xBA, CHR 0xE4, CHR 0xBD, CHR 0xA0,
     CHR 0xE6, CHR 0x9C, CHR 0x8D, CHR 0xE5, CHR 0x8A, CHR 0xA1, CHR 0xEF, CHR 0xBC, CHR 0x81]"

text \<open>\<open>config.i18n.get('error_occurred')\<close>: (Sorry, an error occurred while processing your message. Please try again later.)\<close>

definition error_occurred :: string where
  "error_occurred =
     [CHR 0xE2, CHR 0x9D, CHR 0x8C] @ '' '' @ [CHR 0xE6, CHR 0x8A, CHR 0xB1, CHR 0xE6,
     CHR 0xAD, CHR 0x89, CHR 0xEF, CHR 0xBC, CHR 0x8C, CHR 0xE5, CHR 0xA4, CHR 0x84, CHR 0xE7,
     CHR 0x90, CHR 0x86, CHR 0xE6, CHR 0x82, CHR 0xA8, CHR 0xE7, CHR 0x9A, CHR 0x84, CHR 0xE6,
     CHR 0xB6, CHR 0x88, CHR 0xE6, CHR 0x81, CHR 0xAF, CHR 0xE6, CHR 0x97, CHR 0xB6, CHR 0xE5,
     CHR 0x87, CHR 0xBA, CHR 0xE7, CHR 0x8E, CHR 0xB0, CHR 0xE9, CHR 0x94, CHR 0x99, CHR 0xE8,
     CHR 0xAF, CHR 0xAF, CHR 0xE3, CHR 0x80, CHR 0x82, CHR 0xE8, CHR 0xAF, CHR 0xB7, CHR 0xE7,
     CHR 0xA8, CHR 0x8D, CHR 0xE5, CHR 0x90, CHR 0x8E, CHR 0xE5, CHR 0x86, CHR 0x8D, CHR 0xE8,
     CHR 0xAF, CHR 0x95, CHR 0xE3, CHR 0x80, CHR 0x82]"

text \<open>The default title is this word (Session) followed by a number.\<close>

definition SESSION_TITLE_PREFIX :: string where
  "SESSION_TITLE_PREFIX =
     [CHR 0xE4, CHR 0xBC, CHR 0x9A, CHR 0xE8, CHR 0xAF, CHR 0x9D]"

text \<open>\<open>datetime.datetime.now()\<close> and \<open>str(uuid.uuid4())\<close>.\<close>

definition now :: "env \<Rightarrow> world \<Rightarrow> nat \<times> world" where
  "now E w = (clock E (ticks w), advance_ticks 1 w)"

definition new_uuid :: "env \<Rightarrow> world \<Rightarrow> string \<times> world" where
  "new_uuid E w = (uuid4 E (minted w), advance_minted 1 w)"

definition get_messages :: "world \<Rightarrow> string \<Rightarrow> nat option \<Rightarrow> (string \<times> string \<times> nat) list" where
  "get_messages w sid limit = db_get_messages w sid limit"

definition count_sessions :: "world \<Rightarrow> string \<Rightarrow> nat" where
  "count_sessions w phone = length (db_get_sessions w phone)"

text \<open>\<open>new_title.replace('"', '').replace("'", "")\<close>\<close>

definition drop_quotes :: "string \<Rightarrow> string" where
  "drop_quotes s = filter (\<lambda>c. c \<noteq> CHR 0x22 \<and> c \<noteq> CHR 0x27) s"

text \<open>\<open>ChatManager.auto_rename_session\<close>.\<close>

definition auto_rename_session :: "env \<Rightarrow> string \<Rightarrow> world \<Rightarrow> bool \<times> world" where
  "auto_rename_session E sid w =
     (let msgs = get_messages w sid (Some 10) in
      if length msgs < 2 then (False, w)
      else
        let user_messages = map (\<lambda>(role, content, ts). content)
                              (filter (\<lambda>(role, content, ts). role = ''user'') msgs);
            assistant_messages = map (\<lambda>(role, content, ts). content)
                                   (filter (\<lambda>(role, content, ts). role = ''assistant'') msgs)
        in case user_messages of
             [] \<Rightarrow> (False, w)
           | first_user # _ \<Rightarrow>
               let first_user_msg = py_take 200 first_user;
                   first_assistant_msg =
                     (case assistant_messages of [] \<Rightarrow> [] | a # _ \<Rightarrow> py_take 200 a);
                   new_title = py_strip (generate_text E
                                 (RenamePrompt first_user_msg first_assistant_msg) 20 (3 / 10));
                   new_title = py_strip (drop_quotes new_title)
               in if new_title = [] \<or> py_len new_title < 2 then (False, w)
                  else (True,
                        w\<lparr>sessions :=
                             map (\<lambda>(s, phone, title, created).
                                    if s = sid then (s, phone, new_title, created)
                                    else (s, phone, title, created)) (sessions w),
                           events := events w @ [SESSION_RENAMED sid new_title]\<rparr>))"

text \<open>
  \<open>ChatManager.add_message\<close>: the single write path of the message log. After an
  assistant-role row is stored, a session that now holds exactly two rows triggers the
  rename. \<open>add_message_with refused\<close> is the method with the answer of the engine to
  its \<open>INSERT\<close> given; \<open>add_message\<close> is the call whose write the engine accepts.
\<close>

definition add_message_with ::
  "bool \<Rightarrow> env \<Rightarrow> string \<Rightarrow> string \<Rightarrow> string \<Rightarrow> world \<Rightarrow> bool \<times> world" where
  "add_message_with refused E sid role content w =
     (let (ts, w1) = now E w;
          (success, w2) = db_add_message refused sid role content ts w1
      in if success then
           (if role = ''assistant'' then
              (if length (get_messages w2 sid None) = 2 then
                 (let w3 = w2\<lparr>events := events w2 @ [AUTO_RENAME_CHECK sid]\<rparr>
                  in (success, snd (auto_rename_session E sid w3)))
               else (success, w2))
            else (success, w2))
         else (success, w2))"

definition add_message :: "env \<Rightarrow> string \<Rightarrow> string \<Rightarrow> string \<Rightarrow> world \<Rightarrow> bool \<times> world" where
  "add_message E sid role content w = add_message_with False E sid role content w"

text \<open>
  \<open>ChatManager.create_session\<close>; an absent title is the empty string. The failure
  sentinel is the empty string. The result of appending the welcome message is not
  looked at: the id is returned once the session row is stored.
  \<open>create_session_with refused_session refused_welcome\<close> is the method with the
  answers of the engine to its two writes given; \<open>create_session\<close> is the call whose
  writes the engine accepts.
\<close>

definition create_session_with ::
  "bool \<Rightarrow> bool \<Rightarrow> env \<Rightarrow> string \<Rightarrow> string \<Rightarrow> world \<Rightarrow> string \<times> world" where
  "create_session_with refused_session refused_welcome E phone title w =
     (let (sid, w1) = new_uuid E w;
          title = (if title = [] then SESSION_TITLE_PREFIX @ py_str_nat (count_sessions w1 phone + 1)
                   else title);
          (created, w2) = now E w1;
          (ok, w3) = db_create_session refused_session sid phone title created w2
      in if ok then
           (sid, snd (add_message_with refused_welcome E sid ''assistant'' new_session_created w3))
         else ([], w3))"

definition create_session :: "env \<Rightarrow> string \<Rightarrow> string \<Rightarrow> world \<Rightarrow> string \<times> world" where
  "create_session E phone title w = create_session_with False False E phone title w"

text \<open>A run of calls to \<open>add_message\<close>, each given as (session id, role, content).\<close>

fun add_messages :: "env \<Rightarrow> (string \<times> string \<times> string) list \<Rightarrow> world \<Rightarrow> world" where
  "add_messages E [] w = w"
| "add_messages E ((sid, role, content) # rest) w =
     add_messages E rest (snd (add_message E sid role content w))"

text \<open>The rows of a session in insertion order, and the roles of its log in replay order.\<close>

definition session_rows :: "world \<Rightarrow> string \<Rightarrow> (string \<times> string \<times> nat) list" where
  "session_rows w sid =
     map (\<lambda>(s, role, content, ts). (role, content, ts))
       (filter (\<lambda>(s, role, content, ts). s = sid) (messages w))"

definition message_roles :: "world \<Rightarrow> string \<Rightarrow> string list" where
  "message_roles w sid = map fst (get_messages w sid None)"

text \<open>How often the rename trigger has fired for a session.\<close>

definition rename_checks :: "world \<Rightarrow> string \<Rightarrow> nat" where
  "rename_checks w sid = length (filter (\<lambda>e. e = AUTO_RENAME_CHECK sid) (events w))"

section \<open>modules/file_processing.py\<close>

text \<open>The texts of the status messages of \<open>process_file\<close>: (Processing document: ),\<close>

definition PROGRESS_START_PREFIX :: string where
  "PROGRESS_START_PREFIX =
     [CHR 0xF0, CHR 0x9F, CHR 0x93, CHR 0x84] @ '' '' @ [CHR 0xE6, CHR 0xAD, CHR 0xA3,
     CHR 0xE5, CHR 0x9C, CHR 0xA8, CHR 0xE5, CHR 0xA4, CHR 0x84, CHR 0xE7, CHR 0x90, CHR 0x86,
     CHR 0xE6, CHR 0x96, CHR 0x87, CHR 0xE6, CHR 0xA1, CHR 0xA3] @ '': ''"

text \<open>(Cannot load document: ),\<close>

definition LOAD_FAILED_PREFIX :: string where
  "LOAD_FAILED_PREFIX =
     [CHR 0xE2, CHR 0x9D, CHR 0x8C] @ '' '' @ [CHR 0xE6, CHR 0x97, CHR 0xA0, CHR 0xE6,
     CHR 0xB3, CHR 0x95, CHR 0xE5, CHR 0x8A, CHR 0xA0, CHR 0xE8, CHR 0xBD, CHR 0xBD, CHR 0xE6,
     CHR 0x96, CHR 0x87, CHR 0xE6, CHR 0xA1, CHR 0xA3] @ '': ''"

text \<open>(Document has no chunks: ),\<close>

definition EMPTY_CHUNKS_PREFIX :: string where
  "EMPTY_CHUNKS_PREFIX =
     [CHR 0xE2, CHR 0x9A, CHR 0xA0, CHR 0xEF, CHR 0xB8, CHR 0x8F] @ '' '' @ [CHR 0xE6,
     CHR 0x96, CHR 0x87, CHR 0xE6, CHR 0xA1, CHR 0xA3, CHR 0xE5, CHR 0x88, CHR 0x86, CHR 0xE5,
     CHR 0x9D, CHR 0x97, CHR 0xE4, CHR 0xB8, CHR 0xBA, CHR 0xE7, CHR 0xA9, CHR 0xBA] @ '': ''"

text \<open>(Splitting the document failed: ),\<close>

definition SPLIT_FAILED_PREFIX :: string where
  "SPLIT_FAILED_PREFIX =
     [CHR 0xE2, CHR 0x9D, CHR 0x8C] @ '' '' @ [CHR 0xE6, CHR 0x96, CHR 0x87, CHR 0xE6,
     CHR 0xA1, CHR 0xA3, CHR 0xE5, CHR 0x88, CHR 0x86, CHR 0xE5, CHR 0x9D, CHR 0x97, CHR 0xE5,
     CHR 0xA4, CHR 0xB1, CHR 0xE8, CHR 0xB4, CHR 0xA5] @ '': ''"

text \<open>(Connection to the vector database failed),\<close>

definition VECTOR_DB_FAILED_TEXT :: string where
  "VECTOR_DB_FAILED_TEXT =
     [CHR 0xE2, CHR 0x9D, CHR 0x8C] @ '' '' @ [CHR 0xE5, CHR 0x90, CHR 0x91, CHR 0xE9,
     CHR 0x87, CHR 0x8F, CHR 0xE6, CHR 0x95, CHR 0xB0, CHR 0xE6, CHR 0x8D, CHR 0xAE, CHR 0xE5,
     CHR 0xBA, CHR 0x93, CHR 0xE8, CHR 0xBF, CHR 0x9E, CHR 0xE6, CHR 0x8E, CHR 0xA5, CHR 0xE5,
     CHR 0xA4, CHR 0xB1, CHR 0xE8, CHR 0xB4, CHR 0xA5]"

text \<open>(Processing... ),\<close>

definition PROGRESS_BATCH_PREFIX :: string where
  "PROGRESS_BATCH_PREFIX =
     [CHR 0xF0, CHR 0x9F, CHR 0x93, CHR 0x8A] @ '' '' @ [CHR 0xE5, CHR 0xA4, CHR 0x84,
     CHR 0xE7, CHR 0x90, CHR 0x86, CHR 0xE4, CHR 0xB8, CHR 0xAD] @ ''... ''"

text \<open>(Document processed: ),\<close>

definition SUCCESS_PREFIX :: string where
  "SUCCESS_PREFIX =
     [CHR 0xE2, CHR 0x9C, CHR 0x85] @ '' '' @ [CHR 0xE6, CHR 0x96, CHR 0x87, CHR 0xE6,
     CHR 0xA1, CHR 0xA3, CHR 0xE5, CHR 0xA4, CHR 0x84, CHR 0xE7, CHR 0x90, CHR 0x86, CHR 0xE5,
     CHR 0xAE, CHR 0x8C, CHR 0xE6, CHR 0x88, CHR 0x90] @ '': ''"

text \<open>and the words that end the count (chunks, with the closing bracket),\<close>

definition SUCCESS_SUFFIX :: string where
  "SUCCESS_SUFFIX =
     '' '' @ [CHR 0xE4, CHR 0xB8, CHR 0xAA, CHR 0xE7, CHR 0x89, CHR 0x87, CHR 0xE6, CHR 0xAE,
     CHR 0xB5] @ '')''"

text \<open>(Storing the vectors failed: ),\<close>

definition STORE_FAILED_PREFIX :: string where
  "STORE_FAILED_PREFIX =
     [CHR 0xE2, CHR 0x9D, CHR 0x8C] @ '' '' @ [CHR 0xE5, CHR 0x90, CHR 0x91, CHR 0xE9,
     CHR 0x87, CHR 0x8F, CHR 0xE5, CHR 0xAD, CHR 0x98, CHR 0xE5, CHR 0x82, CHR 0xA8, CHR 0xE5,
     CHR 0xA4, CHR 0xB1, CHR 0xE8, CHR 0xB4, CHR 0xA5] @ '': ''"

text \<open>(Processing went wrong: ).\<close>

definition CRASH_PREFIX :: string where
  "CRASH_PREFIX =
     [CHR 0xF0, CHR 0x9F, CHR 0x92, CHR 0xA5] @ '' '' @ [CHR 0xE5, CHR 0xA4, CHR 0x84,
     CHR 0xE7, CHR 0x90, CHR 0x86, CHR 0xE5, CHR 0x87, CHR 0xBA, CHR 0xE9, CHR 0x94,
     CHR 0x99] @ '': ''"

definition supported_formats :: "string list" where
  "supported_formats = [''pdf'', ''docx'', ''txt'', ''pptx'', ''html'', ''ipynb'']"

text \<open>
  \<open>FileProcessor.load_document\<close>: no loader for the type gives \<open>None\<close>; a missing file,
  an empty or failed load and the timeout are the adapter's \<open>None\<close>.
\<close>

definition load_document :: "env \<Rightarrow> string \<Rightarrow> string \<Rightarrow> string list option" where
  "load_document E path ftype =
     (if py_lower ftype \<in> set supported_formats then loader E path ftype else None)"

text \<open>\<open>range(0, total_chunks, 50)\<close>\<close>

definition batch_starts :: "nat \<Rightarrow> nat list" where
  "batch_starts n_chunks = map (\<lambda>k. 50 * k) [0 ..< (n_chunks + 49) div 50]"

text \<open>The ids, texts and metadata prepared for the chunks of one file.\<close>

definition make_entries ::
  "env \<Rightarrow> world \<Rightarrow> string \<Rightarrow> string \<Rightarrow> string \<Rightarrow> string \<Rightarrow> string list \<Rightarrow> chunk list" where
  "make_entries E w sid_str file_name abs_path ftype chunks =
     map (\<lambda>(i, text).
            \<lparr>chunk_id = uuid4 E (minted w + i), document = text, source = file_name,
             chunk_index = i, file_path = abs_path, file_type = ftype,
             timestamp = clock E (ticks w + i), session_id = sid_str\<rparr>)
         (zip [0 ..< length chunks] chunks)"

text \<open>
  The batch loop of \<open>process_file\<close> over the start offsets still to run: add the batch
  to the collection, then, for a document of more than 100 chunks, store a progress
  message. The result is \<open>False\<close> when the store raised.
\<close>

fun add_batches ::
  "env \<Rightarrow> string \<Rightarrow> string \<Rightarrow> nat \<Rightarrow> chunk list \<Rightarrow> nat list \<Rightarrow> world \<Rightarrow> bool \<times> world" where
  "add_batches E sid_str name n_chunks entries [] w = (True, w)"
| "add_batches E sid_str name n_chunks entries (i # rest) w =
     (let batch_end = min (i + 50) n_chunks;
          batch = take (batch_end - i) (drop i entries)
      in if add_error E name batch then (False, w)
         else
           let w1 = put_collection name (stored_in w name @ batch) w;
               w2 = (if n_chunks > 100 then
                       snd (add_message E sid_str ''system''
                              (PROGRESS_BATCH_PREFIX @ fmt_percent E batch_end n_chunks @ ''%'') w1)
                     else w1)
           in add_batches E sid_str name n_chunks entries rest w2)"

text \<open>\<open>get_or_create_collection\<close>\<close>

definition get_or_create_collection :: "string \<Rightarrow> world \<Rightarrow> world" where
  "get_or_create_collection name w =
     (case collections w name of
        None \<Rightarrow> put_collection name [] w
      | Some entries \<Rightarrow> w)"

text \<open>
  Steps 3 to 5 of \<open>FileProcessor.process_file\<close>, for a non-empty list of chunks: open
  the collection named by the session id, prepare ids, texts and metadata, store them in
  batches of 50, and report the outcome to the session's log.
\<close>

definition store_chunks ::
  "env \<Rightarrow> string \<Rightarrow> string \<Rightarrow> string \<Rightarrow> string \<Rightarrow> string list \<Rightarrow> world \<Rightarrow> bool \<times> world" where
  "store_chunks E sid_str path file_name ftype chunks w1 =
     (let name = collection_name sid_str in
      if collection_error E name then
        (False, snd (add_message E sid_str ''system'' VECTOR_DB_FAILED_TEXT w1))
      else
        let w2 = get_or_create_collection name w1;
            w3 = advance_minted (length chunks) w2
        in case path_resolve E path of
             Inl e \<Rightarrow>
               (False, snd (add_message E sid_str ''system'' (CRASH_PREFIX @ file_name) w3))
           | Inr abs_path \<Rightarrow>
               let entries = make_entries E w2 sid_str file_name abs_path ftype chunks;
                   w4 = advance_ticks (length chunks) w3;
                   total_chunks = length chunks;
                   (stored, w5) = add_batches E sid_str name total_chunks entries
                                    (batch_starts total_chunks) w4
               in if stored then
                    (True,
                     snd (add_message E sid_str ''assistant''
                            (SUCCESS_PREFIX @ file_name @ '' (''
                               @ py_str_nat (length chunks) @ SUCCESS_SUFFIX) w5))
                  else
                    (False,
                     snd (add_message E sid_str ''system'' (STORE_FAILED_PREFIX @ file_name) w5)))"

text \<open>
  \<open>FileProcessor.process_file\<close>: the check of the session id, the start message, the
  load and the split, then the steps above.
\<close>

definition process_file ::
  "env \<Rightarrow> string \<Rightarrow> string \<Rightarrow> string \<Rightarrow> string \<Rightarrow> world \<Rightarrow> bool \<times> world" where
  "process_file E sid path file_name ftype w =
     (case uuid_str E sid of
        None \<Rightarrow> (False, w)
      | Some sid_str \<Rightarrow>
          let w1 = snd (add_message E sid_str ''system''
                          (PROGRESS_START_PREFIX @ file_name @ ''...'') w)
          in case load_document E path ftype of
               None \<Rightarrow>
                 (False, snd (add_message E sid_str ''system'' (LOAD_FAILED_PREFIX @ file_name) w1))
             | Some documents \<Rightarrow>
                 (case split_documents E documents of
                    Inl e \<Rightarrow>
                      (False,
                       snd (add_message E sid_str ''system'' (SPLIT_FAILED_PREFIX @ file_name) w1))
                  | Inr [] \<Rightarrow>
                      (False,
                       snd (add_message E sid_str ''system'' (EMPTY_CHUNKS_PREFIX @ file_name) w1))
                  | Inr chunks \<Rightarrow> store_chunks E sid_str path file_name ftype chunks w1))"

section \<open>modules/ui_handlers.py\<close>

text \<open>
  \<open>MessageHandler.process_message\<close>, returning the new chat history and the session id
  it hands back. An absent session id is the empty string. The prediction of follow-up
  questions that closes the \<open>try\<close> block stores nothing and does not raise; the button
  updates built from it belong to the user interface and are left out.
\<close>

definition process_message ::
  "env \<Rightarrow> string \<Rightarrow> string \<Rightarrow> string \<Rightarrow> (string \<times> string) list \<Rightarrow> world
     \<Rightarrow> ((string \<times> string) list \<times> string) \<times> world" where
  "process_message E text sid phone chat_history w =
     (let text = py_strip text in
      if text = [] then ((chat_history, sid), w)
      else
        let sid_str = sid;
            (sid_str, w1) = (case uuid_str E sid_str of
                               Some u \<Rightarrow> (sid_str, w)
                             | None \<Rightarrow> create_session E phone [] w);
            w2 = snd (add_message E sid ''user'' text w1);
            db_messages = get_messages w2 sid None;
            formatted_messages = map (\<lambda>(role, content, ts). (role, content)) db_messages;
            intent = recognize E text;
            (outcome, w3) = route E intent text sid formatted_messages w2;
            reply = (case outcome of Inr reply \<Rightarrow> reply | Inl e \<Rightarrow> error_occurred);
            w4 = snd (add_message E sid ''assistant'' reply w3);
            updated_messages = get_messages w4 sid None;
            new_history = map (\<lambda>(role, content, ts). (role, content)) updated_messages
        in ((new_history, sid), w4))"

section \<open>Runs of operations\<close>

text \<open>
  The operations of the core that change the state, and a run of them in sequence.
\<close>

datatype op =
    CreateSession string string
  | AddMessage string string string
  | ProcessFile string string string string
  | RagQuery string string
  | ProcessMessage string string string

fun step :: "env \<Rightarrow> op \<Rightarrow> world \<Rightarrow> world" where
  "step E (CreateSession phone title) w = snd (create_session E phone title w)"
| "step E (AddMessage sid role content) w = snd (add_message E sid role content w)"
| "step E (ProcessFile sid path file_name ftype) w = snd (process_file E sid path file_name ftype w)"
| "step E (RagQuery question sid) w = snd (rag_query E question sid w)"
| "step E (ProcessMessage text sid phone) w = snd (process_message E text sid phone [] w)"

fun run :: "env \<Rightarrow> op list \<Rightarrow> world \<Rightarrow> world" where
  "run E [] w = w"
| "run E (x # xs) w = run E xs (step E x w)"

text \<open>
  The message log of \<open>w'\<close> is that of \<open>w\<close> followed by rows stamped with clock readings
  taken from \<open>w\<close> on.
\<close>

definition extends :: "env \<Rightarrow> world \<Rightarrow> world \<Rightarrow> bool" where
  "extends E w w' =
     (ticks w \<le> ticks w'
      \<and> (\<exists>rows. messages w' = messages w @ rows
            \<and> list_all (\<lambda>(s, role, content, ts). \<exists>k. ticks w \<le> k \<and> ts = clock E k) rows))"

text \<open>
  The chunks held anywhere in the vector store, and the shape every store built by the
  operations has: each chunk sits in the collection named by its own session tag.
\<close>

definition stored_chunks :: "world \<Rightarrow> chunk set" where
  "stored_chunks w = {c. \<exists>name entries. collections w name = Some entries \<and> c \<in> set entries}"

definition tagged :: "world \<Rightarrow> bool" where
  "tagged w =
     (\<forall>name entries. collections w name = Some entries \<longrightarrow>
        list_all (\<lambda>c. collection_name (session_id c) = name) entries)"

section \<open>Sample environments\<close>

text \<open>
  A parser for identifiers made of hexadecimal digits and hyphens, which answers as
  \<open>str(uuid.UUID(s))\<close> does on them: 32 digits after the hyphens are dropped, rendered
  in lower case in groups of 8-4-4-4-12.
\<close>

definition is_hex_digit :: "char \<Rightarrow> bool" where
  "is_hex_digit c =
     (let n = (of_char c :: nat)
      in (48 \<le> n \<and> n \<le> 57) \<or> (97 \<le> n \<and> n \<le> 102) \<or> (65 \<le> n \<and> n \<le> 70))"

definition hyphenate :: "string \<Rightarrow> string" where
  "hyphenate h =
     take 8 h @ ''-'' @ take 4 (drop 8 h) @ ''-'' @ take 4 (drop 12 h) @ ''-''
       @ take 4 (drop 16 h) @ ''-'' @ drop 20 h"

definition hex_uuid_str :: "string \<Rightarrow> string option" where
  "hex_uuid_str s =
     (let hex = filter (\<lambda>c. c \<noteq> CHR ''-'') s
      in if length hex = 32 \<and> list_all is_hex_digit hex then Some (hyphenate (py_lower hex))
         else None)"

definition numbered_uuid :: "nat \<Rightarrow> string" where
  "numbered_uuid n =
     ''00000000-0000-4000-8000-'' @ replicate (12 - length (py_str_nat n)) CHR ''0''
       @ py_str_nat n"

text \<open>The nearest whole percentage, a tie going to the even one.\<close>

definition nearest_percent :: "nat \<Rightarrow> nat \<Rightarrow> nat" where
  "nearest_percent stored n_chunks =
     (let q = stored * 100 div n_chunks; r = stored * 100 mod n_chunks
      in if 2 * r < n_chunks then q
         else if n_chunks < 2 * r then q + 1
         else if even q then q else q + 1)"

text \<open>
  An environment where every collaborator answers: the generation service replies
  \<open>ok\<close>, no search key is configured, the clock counts its readings, the percentage
  is rounded on the exact quotient.
\<close>

definition plain_env :: env where
  "plain_env =
     \<lparr>llm = (\<lambda>p max_tokens temperature. Inr ''ok''),
      serpapi_api_key = None,
      http_get = (\<lambda>key query num attempt. Inl Timeout),
      jitter = (\<lambda>attempt. 1),
      uuid_str = hex_uuid_str,
      uuid4 = numbered_uuid,
      clock = (\<lambda>n. n),
      distance = (\<lambda>query_text text. 0),
      query_error = (\<lambda>name query_text. False),
      collection_error = (\<lambda>name. False),
      add_error = (\<lambda>name batch. False),
      loader = (\<lambda>path ftype. Some [''text'']),
      split_documents = (\<lambda>documents. Inr documents),
      path_resolve = (\<lambda>path. Inr path),
      fmt_percent = (\<lambda>stored n_chunks. py_str_nat (nearest_percent stored n_chunks))\<rparr>"

text \<open>The same with a search key configured and a provider that always times out.\<close>

definition timeout_env :: env where
  "timeout_env = plain_env\<lparr>serpapi_api_key := Some ''key''\<rparr>"

text \<open>
  The same as \<open>plain_env\<close> with a clock that steps back at every reading, as the local
  wall clock read by \<open>datetime.now()\<close> does when it is set back.
\<close>

definition backward_env :: env where
  "backward_env = plain_env\<lparr>clock := (\<lambda>n. 10 - n)\<rparr>"

text \<open>A handler that raises, and a table that maps every code to it.\<close>

definition raising_handler :: handler where
  "raising_handler user_input sid history w = (Inl OtherException, w)"

definition raising_table :: "string \<rightharpoonup> handler" where
  "raising_table intent = Some raising_handler"

text \<open>The same as \<open>plain_env\<close> with a splitter that cuts every document into 120 chunks.\<close>

definition bulk_env :: env where
  "bulk_env = plain_env\<lparr>split_documents := (\<lambda>documents. Inr (replicate 120 ''chunk''))\<rparr>"

text \<open>
  The chunk stored when \<open>plain_env\<close> processes the one-chunk file \<open>/tmp/a.txt\<close> on the
  empty store under the session id numbered 1.
\<close>

definition sample_chunk :: chunk where
  "sample_chunk =
     \<lparr>chunk_id = ''00000000-0000-4000-8000-000000000000'', document = ''text'',
      source = ''a.txt'', chunk_index = 0, file_path = ''/tmp/a.txt'', file_type = ''txt'',
      timestamp = 1, session_id = ''00000000-0000-4000-8000-000000000001''\<rparr>"


section \<open>Properties of the classifier\<close>

lemma starts_with_take: "starts_with p s = (take (length p) s = p)"
  by (induction p s rule: starts_with.induct) auto

lemma space_len_zero:
  assumes "[] \<notin> set codes"
  shows "space_len codes s = 0 \<longleftrightarrow> (\<forall>p \<in> set codes. \<not> starts_with p s)"
proof
  assume z: "space_len codes s = 0"
  show "\<forall>p \<in> set codes. \<not> starts_with p s"
  proof (cases "find (\<lambda>p. starts_with p s) codes")
    case None
    then show ?thesis by (simp add: find_None_iff)
  next
    case (Some p)
    then have "p \<in> set codes" by (auto simp: find_Some_iff)
    moreover have "length p = 0" using z Some by (simp add: space_len_def)
    ultimately show ?thesis using assms by auto
  qed
next
  assume "\<forall>p \<in> set codes. \<not> starts_with p s"
  then have "find (\<lambda>p. starts_with p s) codes = None" by (simp add: find_None_iff)
  then show "space_len codes s = 0" by (simp add: space_len_def)
qed

lemma strip_front_clean: "space_len codes (strip_front codes s) = 0"
  by (induction codes s rule: strip_front.induct) (simp add: strip_front.simps)

lemma strip_front_fixed: "space_len codes s = 0 \<Longrightarrow> strip_front codes s = s"
  by (simp add: strip_front.simps)

lemma strip_front_is_drop: "\<exists>k. strip_front codes s = drop k s"
proof (induction codes s rule: strip_front.induct)
  case (1 codes s)
  show ?case
  proof (cases "space_len codes s = 0")
    case True
    then have "strip_front codes s = drop 0 s" by (simp add: strip_front.simps)
    then show ?thesis by blast
  next
    case False
    then obtain k where
      "strip_front codes (drop (space_len codes s) s) = drop k (drop (space_len codes s) s)"
      using 1 by blast
    then have "strip_front codes s = drop (k + space_len codes s) s"
      using False by (simp add: strip_front.simps[of codes s] add.commute)
    then show ?thesis by blast
  qed
qed

lemma space_len_take:
  assumes "[] \<notin> set codes" and "space_len codes t = 0"
  shows "space_len codes (take m t) = 0"
proof -
  have "\<not> starts_with p (take m t)" if "p \<in> set codes" for p
  proof
    assume "starts_with p (take m t)"
    then have e: "take (length p) (take m t) = p" by (simp add: starts_with_take)
    then have "length (take (length p) (take m t)) = length p" by simp
    then have "length p \<le> m" by simp
    then have "take (length p) t = p" using e by (simp add: min_def)
    then have "starts_with p t" by (simp add: starts_with_take)
    then show False using assms that by (simp add: space_len_zero)
  qed
  then show ?thesis using assms(1) by (simp add: space_len_zero)
qed

lemma space_codes_proper: "[] \<notin> set space_codes"
  by (simp add: space_codes_def)

text \<open>Stripping a stripped string changes nothing.\<close>

lemma py_strip_idem: "py_strip (py_strip s) = py_strip s"
proof -
  define t where "t = strip_front space_codes s"
  define v where "v = strip_front (map rev space_codes) (rev t)"
  have sv: "py_strip s = rev v" by (simp add: py_strip_def t_def v_def)
  obtain k where "v = drop k (rev t)"
    using strip_front_is_drop[of "map rev space_codes" "rev t"] v_def by auto
  then have "rev v = take (length t - k) t" by (simp add: rev_drop)
  moreover have "space_len space_codes t = 0" unfolding t_def by (rule strip_front_clean)
  ultimately have "space_len space_codes (rev v) = 0"
    using space_len_take[OF space_codes_proper] by simp
  then have head: "strip_front space_codes (rev v) = rev v" by (rule strip_front_fixed)
  have "space_len (map rev space_codes) v = 0" unfolding v_def by (rule strip_front_clean)
  then have tail: "strip_front (map rev space_codes) v = v" by (rule strip_front_fixed)
  show ?thesis unfolding sv by (simp add: py_strip_def head tail)
qed

lemma py_strip_ok: "py_strip ''ok'' = ''ok''"
  by code_simp

text \<open>
  An ideographic space (U+3000) after the text and a no-break space (U+00A0) before it
  are stripped like the ASCII ones.
\<close>

lemma py_strip_unicode_space:
  "py_strip ('' A'' @ [CHR 0xE3, CHR 0x80, CHR 0x80, CHR 0x0A]) = ''A''"
  "py_upper (py_strip ([CHR 0xC2, CHR 0xA0] @ ''k'')) = ''K''"
  by code_simp+

lemma fixed_replies_are_no_intents:
  "py_upper (py_strip LLM_API_ERROR_REPLY) \<notin> set valid_intents"
  "py_upper (py_strip LLM_EXCEPTION_REPLY) \<notin> set valid_intents"
  by code_simp+

text \<open>
  C3. For every input, \<open>recognize\<close> returns a member of the valid intent set
  \<open>{A, B, C, D, E, F, G, H, J, K}\<close>. When the completion call raises, whatever the
  exception, the result is \<open>D\<close>. When it returns text, the result is that text trimmed
  and uppercased if this is a member of the set, and \<open>D\<close> otherwise.
\<close>

theorem recognize_total_closed:
  "recognize E user_input \<in> set VALID_INTENTS
   \<and> recognize E user_input =
       (case llm E (IntentPrompt user_input) 2 (1 / 10) of
          Inl e \<Rightarrow> ''D''
        | Inr completion \<Rightarrow>
            if py_upper (py_strip completion) \<in> set VALID_INTENTS
            then py_upper (py_strip completion) else ''D'')"
proof
  show "recognize E user_input \<in> set VALID_INTENTS"
    by (auto simp: recognize_def Let_def VALID_INTENTS_def)
  show "recognize E user_input =
       (case llm E (IntentPrompt user_input) 2 (1 / 10) of
          Inl e \<Rightarrow> ''D''
        | Inr completion \<Rightarrow>
            if py_upper (py_strip completion) \<in> set VALID_INTENTS
            then py_upper (py_strip completion) else ''D'')"
    using fixed_replies_are_no_intents
    by (auto simp: recognize_def classify_intent_def generate_text_def Let_def py_strip_idem
        VALID_INTENTS_def valid_intents_def split: sum.splits exn.splits)
qed

section \<open>Properties of the router\<close>

text \<open>
  C2. For every intent code, user text, session id and history, \<open>route\<close> returns a
  reply and never an exception. This holds over any handler table: a code without entry
  gives the static clarification message, and a handler that raises gives the static
  apology message.
\<close>

theorem route_never_raises:
  "(\<exists>reply w'. route E intent user_input sid history w = (Inr reply, w'))
   \<and> (\<exists>reply w'. route_with handlers intent user_input sid history w = (Inr reply, w'))
   \<and> (handlers intent = None \<longrightarrow>
        route_with handlers intent user_input sid history w = (Inr handle_unknown_intent, w))
   \<and> (\<forall>h e w'. handlers intent = Some h \<longrightarrow> h user_input sid history w = (Inl e, w') \<longrightarrow>
        route_with handlers intent user_input sid history w = (Inr handle_error, w'))"
proof -
  have total: "\<exists>reply w'. route_with H intent user_input sid history w = (Inr reply, w')" for H
    by (cases "H intent") (auto simp: route_with_def split: prod.splits sum.splits)
  show ?thesis
    using total[of handlers] total[of "intent_handlers E"]
    by (auto simp: route_def route_with_def)
qed

theorem route_never_raises_witness:
  "route_with Map.empty ''Z'' ''hi'' ''s'' [] empty_world = (Inr handle_unknown_intent, empty_world)
   \<and> route_with raising_table ''A'' ''hi'' ''s'' [] empty_world = (Inr handle_error, empty_world)"
  using route_never_raises[of plain_env "''Z''" "''hi''" "''s''" "[]" empty_world Map.empty]
    route_never_raises[of plain_env "''A''" "''hi''" "''s''" "[]" empty_world raising_table]
  by (simp add: raising_table_def raising_handler_def)

lemma route_cases:
  "route E ''A'' user_input sid history w =
     (Inr (fst (rag_query E user_input sid w)), snd (rag_query E user_input sid w))"
  "route E ''K'' user_input sid history w =
     (Inr (fst (rag_query E user_input sid w)), snd (rag_query E user_input sid w))"
  "route E ''C'' user_input sid history w = (Inr (generate_response E user_input history), w)"
  "route E ''E'' user_input sid history w = (Inr (summarize_search_results E user_input), w)"
  "route E ''F'' user_input sid history w = (Inr (summarize_search_results E user_input), w)"
  "route E ''J'' user_input sid history w = (Inr (summarize_search_results E user_input), w)"
  "route E ''G'' user_input sid history w = (Inr (answer_comparison E user_input), w)"
  "route E ''H'' user_input sid history w = (Inr (answer_evaluation E user_input), w)"
  "intent \<notin> set [''A'', ''C'', ''E'', ''F'', ''G'', ''H'', ''J'', ''K''] \<Longrightarrow>
     route E intent user_input sid history w = (Inr handle_unknown_intent, w)"
  by (simp_all add: route_def route_with_def intent_handlers_def handle_course_question_def
      handle_file_question_def handle_daily_chat_def handle_definition_question_def
      handle_method_question_def handle_other_question_def handle_comparison_question_def
      handle_evaluation_question_def split: prod.splits)

text \<open>
  C9. The dispatch table: \<open>A\<close> and \<open>K\<close> go to the RAG engine, \<open>C\<close> to the daily-chat
  generator, \<open>E\<close>, \<open>F\<close> and \<open>J\<close> to web-search summarization, \<open>G\<close> and \<open>H\<close>
  to the comparison and evaluation prompts of the professional Q&A module; every other
  code, the unrecognized code \<open>D\<close> among them, gives the static clarification message.
\<close>

theorem route_dispatch_table:
  "route E ''A'' user_input sid history w =
     (Inr (fst (rag_query E user_input sid w)), snd (rag_query E user_input sid w))
   \<and> route E ''K'' user_input sid history w =
     (Inr (fst (rag_query E user_input sid w)), snd (rag_query E user_input sid w))
   \<and> route E ''C'' user_input sid history w = (Inr (generate_response E user_input history), w)
   \<and> route E ''E'' user_input sid history w = (Inr (summarize_search_results E user_input), w)
   \<and> route E ''F'' user_input sid history w = (Inr (summarize_search_results E user_input), w)
   \<and> route E ''J'' user_input sid history w = (Inr (summarize_search_results E user_input), w)
   \<and> route E ''G'' user_input sid history w = (Inr (answer_comparison E user_input), w)
   \<and> route E ''H'' user_input sid history w = (Inr (answer_evaluation E user_input), w)
   \<and> (intent \<notin> set [''A'', ''C'', ''E'', ''F'', ''G'', ''H'', ''J'', ''K''] \<longrightarrow>
        route E intent user_input sid history w = (Inr handle_unknown_intent, w))"
  using route_cases(9)[of intent E user_input sid history w]
  by (simp only: route_cases(1-8) simp_thms) blast

theorem route_dispatch_table_witness:
  "route plain_env ''D'' ''hi'' ''s'' [] empty_world = (Inr handle_unknown_intent, empty_world)
   \<and> route plain_env ''B'' ''hi'' ''s'' [] empty_world = (Inr handle_unknown_intent, empty_world)"
  using route_dispatch_table[of plain_env "''hi''" "''s''" "[]" empty_world "''D''"]
    route_dispatch_table[of plain_env "''hi''" "''s''" "[]" empty_world "''B''"]
  by simp

section \<open>Properties of the web search\<close>

lemma generate_text_plain: "generate_text (plain_env\<lparr>serpapi_api_key := k\<rparr>) p m t = ''ok''"
  by (simp add: generate_text_def plain_env_def py_strip_ok)

text \<open>
  C10. Without a configured search key (none, or the empty string) \<open>search\<close> returns the
  fixed text asking to configure the key, sending no request and sleeping for no retry;
  \<open>summarize_search_results\<close> then returns what \<open>generate_text\<close> makes of the prompt
  built from that fixed text, a string in every case.
\<close>

theorem search_without_key:
  assumes "api_key_missing (serpapi_api_key E)"
  shows "search E query num_results max_retries retry_delay = (SEARCH_NO_KEY_REPLY, [])
     \<and> summarize_search_results E query =
         generate_text E (SearchSummaryPrompt query SEARCH_NO_KEY_REPLY) 1024 (7 / 10)"
  using assms
  by (auto simp: search_def summarize_search_results_def api_key_missing_def split: option.splits)

theorem search_without_key_witness:
  "api_key_missing (serpapi_api_key plain_env)
   \<and> search plain_env ''what is a monad'' 5 3 5 = (SEARCH_NO_KEY_REPLY, [])
   \<and> summarize_search_results plain_env ''what is a monad'' = ''ok''"
proof -
  have k: "api_key_missing (serpapi_api_key plain_env)"
    by (simp add: api_key_missing_def plain_env_def)
  have g: "generate_text plain_env p m t = ''ok''" for p m t
    by (simp add: generate_text_def plain_env_def py_strip_ok)
  show ?thesis
    using k search_without_key[OF k, of "''what is a monad''" 5 3 5] by (simp add: g)
qed

lemma search_attempts_all_fail:
  "\<forall>a \<in> set attempts. \<exists>e. http_get E key query n a = Inl e \<Longrightarrow>
   search_attempts E key query n d attempts =
     (SEARCH_EXHAUSTED_REPLY,
      concat (map (\<lambda>a. [HTTP_GET a, SLEEP (of_nat d + jitter E a)]) attempts))"
  by (induction attempts) auto

lemma search_exhausted:
  assumes "serpapi_api_key E = Some key" and "key \<noteq> []"
    and "\<forall>a \<in> set [1, 2, 3, 4]. \<exists>e. http_get E key query 5 a = Inl e"
  shows "search E query 5 3 5 =
           (SEARCH_EXHAUSTED_REPLY,
            [HTTP_GET 1, SLEEP (5 + jitter E 1), HTTP_GET 2, SLEEP (5 + jitter E 2),
             HTTP_GET 3, SLEEP (5 + jitter E 3), HTTP_GET 4, SLEEP (5 + jitter E 4)])"
proof -
  have up: "[1 ..< 3 + 2] = [1, 2, 3, 4::nat]" by (simp add: upt_rec)
  have "search_attempts E key query 5 5 [1, 2, 3, 4] =
     (SEARCH_EXHAUSTED_REPLY,
      concat (map (\<lambda>a. [HTTP_GET a, SLEEP (of_nat 5 + jitter E a)]) [1, 2, 3, 4]))"
    using assms(3) by (rule search_attempts_all_fail)
  then show ?thesis
    using assms(1,2) up by (simp add: search_def)
qed

text \<open>
  C6, as the code has it. When a key is configured and the request raises on each of the
  four attempts (the first and three retries), \<open>search\<close> returns the literal marker after
  exactly four requests, each followed by a pause of the base delay of 5 seconds plus
  that attempt's jitter. \<open>summarize_search_results\<close> does not hand the marker to its
  caller: it returns what \<open>generate_text\<close> makes of the prompt that embeds the marker
  (the completion, or one of the two fixed replies of \<open>generate_text\<close>), never an
  exception.
\<close>

theorem summarize_after_exhaustion:
  assumes "serpapi_api_key E = Some key" and "key \<noteq> []"
    and "\<forall>a \<in> set [1, 2, 3, 4]. \<exists>e. http_get E key query 5 a = Inl e"
  shows "search E query 5 3 5 =
           (SEARCH_EXHAUSTED_REPLY,
            [HTTP_GET 1, SLEEP (5 + jitter E 1), HTTP_GET 2, SLEEP (5 + jitter E 2),
             HTTP_GET 3, SLEEP (5 + jitter E 3), HTTP_GET 4, SLEEP (5 + jitter E 4)])
     \<and> summarize_search_results E query =
         generate_text E (SearchSummaryPrompt query SEARCH_EXHAUSTED_REPLY) 1024 (7 / 10)"
  using search_exhausted[OF assms] by (simp add: summarize_search_results_def)

theorem summarize_after_exhaustion_witness:
  "search timeout_env ''q'' 5 3 5 =
           (SEARCH_EXHAUSTED_REPLY,
            [HTTP_GET 1, SLEEP 6, HTTP_GET 2, SLEEP 6, HTTP_GET 3, SLEEP 6, HTTP_GET 4, SLEEP 6])
   \<and> summarize_search_results timeout_env ''q'' = ''ok''"
proof -
  have a: "serpapi_api_key timeout_env = Some ''key''" by (simp add: timeout_env_def)
  have b: "''key'' \<noteq> []" by simp
  have c: "\<forall>a \<in> set [1, 2, 3, 4]. \<exists>e. http_get timeout_env ''key'' ''q'' 5 a = Inl e"
    by (simp add: timeout_env_def plain_env_def)
  have j: "jitter timeout_env a = 1" for a by (simp add: timeout_env_def plain_env_def)
  have g: "generate_text timeout_env p m t = ''ok''" for p m t
    by (simp add: timeout_env_def generate_text_plain)
  show ?thesis
    using summarize_after_exhaustion[OF a b c] by (simp add: j g)
qed

text \<open>
  The provider times out on all four attempts and the generation service answers
  \<open>ok\<close>: \<open>search\<close> yields the marker, and \<open>summarize_search_results\<close> returns
  \<open>ok\<close>, not the marker.
\<close>

theorem summarize_exhausted_counterexample:
  "fst (search timeout_env ''q'' 5 3 5) = SEARCH_EXHAUSTED_REPLY
   \<and> summarize_search_results timeout_env ''q'' \<noteq> SEARCH_EXHAUSTED_REPLY"
proof -
  have a: "serpapi_api_key timeout_env = Some ''key''" by (simp add: timeout_env_def)
  have b: "''key'' \<noteq> []" by simp
  have c: "\<forall>a \<in> set [1, 2, 3, 4]. \<exists>e. http_get timeout_env ''key'' ''q'' 5 a = Inl e"
    by (simp add: timeout_env_def plain_env_def)
  have s: "fst (search timeout_env ''q'' 5 3 5) = SEARCH_EXHAUSTED_REPLY"
    by (simp add: search_exhausted[OF a b c])
  have "summarize_search_results timeout_env ''q'' = ''ok''"
    by (simp add: summarize_search_results_def timeout_env_def generate_text_plain)
  moreover have "''ok'' \<noteq> SEARCH_EXHAUSTED_REPLY"
    by (simp add: SEARCH_EXHAUSTED_REPLY_def)
  ultimately show ?thesis using s by simp
qed

section \<open>Effects on the state\<close>

lemma get_messages_rows:
  "get_messages w sid None = sort_key (\<lambda>(role, content, ts). ts) (session_rows w sid)"
  by (simp add: get_messages_def db_get_messages_def session_rows_def)

lemma length_get_messages: "length (get_messages w sid None) = length (session_rows w sid)"
  by (simp add: get_messages_rows)

lemma advance_fields [simp]:
  "messages (advance_ticks n w) = messages w"
  "ticks (advance_ticks n w) = ticks w + n"
  "minted (advance_ticks n w) = minted w"
  "collections (advance_ticks n w) = collections w"
  "sessions (advance_ticks n w) = sessions w"
  "events (advance_ticks n w) = events w"
  "messages (advance_minted n w) = messages w"
  "ticks (advance_minted n w) = ticks w"
  "minted (advance_minted n w) = minted w + n"
  "collections (advance_minted n w) = collections w"
  "sessions (advance_minted n w) = sessions w"
  "events (advance_minted n w) = events w"
  by (simp_all add: advance_ticks_def advance_minted_def)

lemma put_collection_fields [simp]:
  "messages (put_collection name es w) = messages w"
  "ticks (put_collection name es w) = ticks w"
  "minted (put_collection name es w) = minted w"
  "sessions (put_collection name es w) = sessions w"
  "events (put_collection name es w) = events w"
  "collections (put_collection name es w) = (collections w)(name \<mapsto> es)"
  by (simp_all add: put_collection_def)

lemma session_rows_cong: "messages w' = messages w \<Longrightarrow> session_rows w' sid = session_rows w sid"
  by (simp add: session_rows_def)

lemma rename_checks_cong: "events w' = events w \<Longrightarrow> rename_checks w' sid = rename_checks w sid"
  by (simp add: rename_checks_def)

lemma auto_rename_fields:
  "messages (snd (auto_rename_session E sid w)) = messages w"
  "ticks (snd (auto_rename_session E sid w)) = ticks w"
  "minted (snd (auto_rename_session E sid w)) = minted w"
  "collections (snd (auto_rename_session E sid w)) = collections w"
  "rename_checks (snd (auto_rename_session E sid w)) s = rename_checks w s"
  by (simp_all add: auto_rename_session_def Let_def rename_checks_def split: list.splits)

lemma add_message_fields:
  "fst (add_message E sid role content w) = True"
  "messages (snd (add_message E sid role content w)) =
     messages w @ [(sid, role, content, clock E (ticks w))]"
  "ticks (snd (add_message E sid role content w)) = Suc (ticks w)"
  "minted (snd (add_message E sid role content w)) = minted w"
  "collections (snd (add_message E sid role content w)) = collections w"
  by (simp_all add: add_message_def add_message_with_def now_def db_add_message_def Let_def auto_rename_fields)

lemma session_rows_add:
  "session_rows (snd (add_message E s role content w)) sid =
     session_rows w sid @ (if s = sid then [(role, content, clock E (ticks w))] else [])"
  by (simp add: session_rows_def add_message_fields)

lemma add_message_checks:
  "rename_checks (snd (add_message E s role content w)) sid =
     rename_checks w sid
       + (if s = sid \<and> role = ''assistant'' \<and> length (session_rows w sid) = 1 then 1 else 0)"
proof -
  define w2 where "w2 = (advance_ticks 1 w)\<lparr>messages := messages w @ [(s, role, content, clock E (ticks w))]\<rparr>"
  have rows: "length (get_messages w2 s None) = Suc (length (session_rows w s))"
    by (simp add: length_get_messages session_rows_def w2_def)
  have w2c: "rename_checks w2 sid = rename_checks w sid"
    by (simp add: w2_def rename_checks_def)
  have w3c: "rename_checks (w2\<lparr>events := events w2 @ [AUTO_RENAME_CHECK s]\<rparr>) sid
      = rename_checks w2 sid + (if s = sid then 1 else 0)"
    by (simp add: rename_checks_def)
  have unfold: "snd (add_message E s role content w) =
      (if role = ''assistant'' \<and> length (get_messages w2 s None) = 2
       then snd (auto_rename_session E s (w2\<lparr>events := events w2 @ [AUTO_RENAME_CHECK s]\<rparr>))
       else w2)"
    by (simp add: add_message_def add_message_with_def now_def db_add_message_def Let_def w2_def)
  show ?thesis
    unfolding unfold using rows w2c w3c by (auto simp: auto_rename_fields)
qed

lemma add_messages_checks_stable:
  "2 \<le> length (session_rows w sid) \<Longrightarrow>
   rename_checks (add_messages E ops w) sid = rename_checks w sid"
proof (induction ops arbitrary: w)
  case Nil
  then show ?case by simp
next
  case (Cons x ops)
  obtain s role content where x: "x = (s, role, content)" by (cases x) auto
  let ?w = "snd (add_message E s role content w)"
  have "2 \<le> length (session_rows ?w sid)"
    using Cons.prems by (simp add: session_rows_add)
  then have "rename_checks (add_messages E ops ?w) sid = rename_checks ?w sid"
    by (rule Cons.IH)
  moreover have "rename_checks ?w sid = rename_checks w sid"
    using Cons.prems by (simp add: add_message_checks)
  ultimately show ?case by (simp add: x)
qed

lemma create_session_eq:
  "create_session E phone title w =
     (let (sid, w1) = new_uuid E w;
          title = (if title = [] then SESSION_TITLE_PREFIX @ py_str_nat (count_sessions w1 phone + 1)
                   else title);
          (created, w2) = now E w1;
          (ok, w3) = db_create_session False sid phone title created w2
      in if ok then (sid, snd (add_message E sid ''assistant'' new_session_created w3))
         else ([], w3))"
  unfolding create_session_def create_session_with_def add_message_def ..

lemma create_session_success:
  assumes "create_session E phone title w = (sid, w1)" and "sid \<noteq> []"
  shows "sid = uuid4 E (minted w)"
    and "session_rows w1 s =
           session_rows w s
             @ (if s = sid then [(''assistant'', new_session_created, clock E (Suc (ticks w)))] else [])"
    and "ticks w1 = Suc (Suc (ticks w))"
    and "rename_checks w1 s =
           rename_checks w s + (if s = sid \<and> length (session_rows w sid) = 1 then 1 else 0)"
proof -
  define t where "t = (if title = [] then SESSION_TITLE_PREFIX @ py_str_nat (count_sessions (advance_minted 1 w) phone + 1) else title)"
  define w3 where "w3 = (advance_ticks 1 (advance_minted 1 w))\<lparr>sessions := sessions w @ [(uuid4 E (minted w), phone, t, clock E (ticks w))]\<rparr>"
  have ok: "uuid4 E (minted w) \<notin> set (map fst (sessions w))"
    using assms
    by (auto simp: create_session_eq new_uuid_def now_def db_create_session_def Let_def
        split: if_splits prod.splits)
  have eq: "create_session E phone title w =
      (uuid4 E (minted w), snd (add_message E (uuid4 E (minted w)) ''assistant'' new_session_created w3))"
    using ok
    by (simp add: create_session_eq new_uuid_def now_def db_create_session_def Let_def
        w3_def t_def)
  from eq assms(1) show sid: "sid = uuid4 E (minted w)" by simp
  from eq assms(1) have w1: "w1 = snd (add_message E sid ''assistant'' new_session_created w3)"
    by simp
  have r3: "session_rows w3 s = session_rows w s" for s
    by (simp add: session_rows_def w3_def)
  have t3: "ticks w3 = Suc (ticks w)" by (simp add: w3_def)
  show "session_rows w1 s =
           session_rows w s
             @ (if s = sid then [(''assistant'', new_session_created, clock E (Suc (ticks w)))] else [])"
    by (simp add: w1 session_rows_add r3 t3)
  show "ticks w1 = Suc (Suc (ticks w))"
    by (simp add: w1 add_message_fields t3)
  have c3: "rename_checks w3 s = rename_checks w s" by (simp add: w3_def rename_checks_def)
  show "rename_checks w1 s =
           rename_checks w s + (if s = sid \<and> length (session_rows w sid) = 1 then 1 else 0)"
    by (simp add: w1 add_message_checks r3 c3)
qed

section \<open>The message log only grows\<close>

lemma extends_refl [simp]: "extends E w w"
  by (simp add: extends_def)

lemma stamped_weaken:
  "t \<le> t' \<Longrightarrow>
   list_all (\<lambda>(s, role, content, ts). \<exists>k. t' \<le> k \<and> ts = clock E k) rows \<Longrightarrow>
   list_all (\<lambda>(s, role, content, ts). \<exists>k. t \<le> k \<and> ts = clock E k) rows"
proof (induction rows)
  case Nil
  then show ?case by simp
next
  case (Cons row rows)
  obtain s role content ts where row: "row = (s, role, content, ts)" by (cases row) auto
  from Cons.prems(2) obtain k where k: "t' \<le> k" "ts = clock E k" by (auto simp: row)
  from k(1) Cons.prems(1) have "t \<le> k" by simp
  with k(2) have "\<exists>k. t \<le> k \<and> ts = clock E k" by blast
  moreover have "list_all (\<lambda>(s, role, content, ts). \<exists>k. t \<le> k \<and> ts = clock E k) rows"
    using Cons.IH Cons.prems by simp
  ultimately show ?case by (simp add: row)
qed

lemma extends_trans: "extends E a b \<Longrightarrow> extends E b c \<Longrightarrow> extends E a c"
proof -
  assume ab: "extends E a b" and bc: "extends E b c"
  from ab obtain r1 where r1: "messages b = messages a @ r1"
    "list_all (\<lambda>(s, role, content, ts). \<exists>k. ticks a \<le> k \<and> ts = clock E k) r1"
    and t1: "ticks a \<le> ticks b" unfolding extends_def by blast
  from bc obtain r2 where r2: "messages c = messages b @ r2"
    "list_all (\<lambda>(s, role, content, ts). \<exists>k. ticks b \<le> k \<and> ts = clock E k) r2"
    and t2: "ticks b \<le> ticks c" unfolding extends_def by blast
  have "list_all (\<lambda>(s, role, content, ts). \<exists>k. ticks a \<le> k \<and> ts = clock E k) r2"
    using t1 r2(2) by (rule stamped_weaken)
  then have all: "list_all (\<lambda>(s, role, content, ts). \<exists>k. ticks a \<le> k \<and> ts = clock E k) (r1 @ r2)"
    using r1(2) by simp
  have msgs: "messages c = messages a @ (r1 @ r2)" using r1(1) r2(1) by simp
  have "ticks a \<le> ticks c" using t1 t2 by simp
  with msgs all show ?thesis unfolding extends_def by blast
qed

lemma extends_same:
  "extends E w w1 \<Longrightarrow> messages w2 = messages w1 \<Longrightarrow> ticks w1 \<le> ticks w2 \<Longrightarrow> extends E w w2"
  by (auto simp: extends_def)

lemma extends_add_message:
  "extends E w w1 \<Longrightarrow> extends E w (snd (add_message E s role content w1))"
proof -
  assume a: "extends E w w1"
  have "extends E w1 (snd (add_message E s role content w1))"
    by (auto simp: extends_def add_message_fields)
  with a show ?thesis by (rule extends_trans)
qed

lemma extends_prims:
  "extends E w w1 \<Longrightarrow> extends E w (put_collection name es w1)"
  "extends E w w1 \<Longrightarrow> extends E w (advance_ticks n w1)"
  "extends E w w1 \<Longrightarrow> extends E w (advance_minted n w1)"
  "extends E w w1 \<Longrightarrow> extends E w (get_or_create_collection name w1)"
  by (auto elim!: extends_same simp: get_or_create_collection_def split: option.splits)

lemma extends_create_session:
  "extends E w w1 \<Longrightarrow> extends E w (snd (create_session E phone title w1))"
proof -
  assume a: "extends E w w1"
  define w3 where "w3 = advance_ticks 1 (advance_minted 1 w1)"
  have e3: "extends E w w3" using a by (auto simp: w3_def intro: extends_prims)
  have "extends E w (w3\<lparr>sessions := ss\<rparr>)" for ss
    using e3 by (rule extends_same) simp_all
  then show ?thesis
    using e3
    by (auto simp: create_session_eq new_uuid_def now_def db_create_session_def Let_def w3_def
      intro!: extends_add_message)
qed

lemma retrieve_results_world:
  "snd (retrieve_results E q sid k w) = w
   \<or> snd (retrieve_results E q sid k w) = put_collection (collection_name sid) [] w"
  by (auto simp: retrieve_results_def Let_def split: option.splits)

lemma rag_query_world:
  "snd (rag_query E q sid w) = w
   \<or> snd (rag_query E q sid w) = put_collection (collection_name sid) [] w"
  using retrieve_results_world[of E q sid 5 w]
  by (auto simp: rag_query_def retrieve_def split: prod.splits)

lemma route_world:
  "snd (route E intent u sid h w) = w
   \<or> snd (route E intent u sid h w) = put_collection (collection_name sid) [] w"
proof (cases "intent \<in> set [''A'', ''C'', ''E'', ''F'', ''G'', ''H'', ''J'', ''K'']")
  case False
  then show ?thesis by (simp only: route_cases(9) snd_conv simp_thms)
next
  case True
  then consider "intent = ''A''" | "intent = ''C''" | "intent = ''E''" | "intent = ''F''"
    | "intent = ''G''" | "intent = ''H''" | "intent = ''J''" | "intent = ''K''"
    by auto
  then show ?thesis
  proof cases
    case 1
    show ?thesis unfolding 1 route_cases(1) snd_conv by (rule rag_query_world)
  next
    case 2
    show ?thesis unfolding 2 route_cases(3) snd_conv by simp
  next
    case 3
    show ?thesis unfolding 3 route_cases(4) snd_conv by simp
  next
    case 4
    show ?thesis unfolding 4 route_cases(5) snd_conv by simp
  next
    case 5
    show ?thesis unfolding 5 route_cases(7) snd_conv by simp
  next
    case 6
    show ?thesis unfolding 6 route_cases(8) snd_conv by simp
  next
    case 7
    show ?thesis unfolding 7 route_cases(6) snd_conv by simp
  next
    case 8
    show ?thesis unfolding 8 route_cases(2) snd_conv by (rule rag_query_world)
  qed
qed

lemma extends_rag_query: "extends E w w1 \<Longrightarrow> extends E w (snd (rag_query E q sid w1))"
  using rag_query_world[of E q sid w1] by (auto intro: extends_prims)

lemma extends_route: "extends E w w1 \<Longrightarrow> extends E w (snd (route E i u sid h w1))"
  using route_world[of E i u sid h w1] by (auto intro: extends_prims)

lemma extends_add_batches:
  "extends E w w1 \<Longrightarrow> extends E w (snd (add_batches E s name n entries starts w1))"
proof (induction starts arbitrary: w1)
  case Nil
  then show ?case by simp
next
  case (Cons i starts)
  show ?case
    using Cons.prems
    by (auto simp: Let_def intro!: Cons.IH extends_add_message extends_prims)
qed

lemma extends_store_chunks:
  "extends E w w1 \<Longrightarrow> extends E w (snd (store_chunks E s path fname ftype chunks w1))"
  unfolding store_chunks_def Let_def split_beta
  by (auto split: sum.splits
      intro!: extends_add_message extends_prims extends_add_batches)

lemma extends_process_file:
  "extends E w w1 \<Longrightarrow> extends E w (snd (process_file E sid path fname ftype w1))"
  unfolding process_file_def Let_def
  by (auto split: option.splits sum.splits list.splits
      intro!: extends_add_message extends_store_chunks)

lemma extends_process_message:
  "extends E w w1 \<Longrightarrow> extends E w (snd (process_message E text sid phone h w1))"
proof -
  assume a: "extends E w w1"
  define w2 where "w2 = snd (case uuid_str E sid of Some u \<Rightarrow> (sid, w1)
                             | None \<Rightarrow> create_session E phone [] w1)"
  have e2: "extends E w w2"
    using a extends_create_session[OF a, of phone "[]"]
    by (cases "uuid_str E sid") (simp_all add: w2_def)
  show ?thesis
    unfolding process_message_def Let_def split_beta w2_def[symmetric]
    using a e2
    by (auto intro!: extends_add_message extends_route)
qed

lemma extends_step: "extends E w w1 \<Longrightarrow> extends E w (step E x w1)"
proof (cases x)
  case (CreateSession phone title)
  assume "extends E w w1"
  then show ?thesis unfolding CreateSession step.simps by (rule extends_create_session)
next
  case (AddMessage sid role content)
  assume "extends E w w1"
  then show ?thesis unfolding AddMessage step.simps by (rule extends_add_message)
next
  case (ProcessFile sid path fname ftype)
  assume "extends E w w1"
  then show ?thesis unfolding ProcessFile step.simps by (rule extends_process_file)
next
  case (RagQuery question sid)
  assume "extends E w w1"
  then show ?thesis unfolding RagQuery step.simps by (rule extends_rag_query)
next
  case (ProcessMessage body sid phone)
  assume "extends E w w1"
  then show ?thesis unfolding ProcessMessage step.simps by (rule extends_process_message)
qed

lemma extends_run: "extends E w w1 \<Longrightarrow> extends E w (run E ops w1)"
proof (induction ops arbitrary: w1)
  case Nil
  then show ?case by simp
next
  case (Cons x ops)
  from Cons.prems have "extends E w (step E x w1)" by (rule extends_step)
  then have "extends E w (run E ops (step E x w1))" by (rule Cons.IH)
  then show ?case by simp
qed

section \<open>Session creation and the rename trigger\<close>

lemma sort_key_least_first:
  "\<forall>y \<in> set xs. f x \<le> f y \<Longrightarrow> sort_key f (x # xs) = x # sort_key f xs"
proof -
  assume a: "\<forall>y \<in> set xs. f x \<le> f y"
  have "insort_key f x ys = x # ys" if "\<forall>y \<in> set ys. f x \<le> f y" for ys
    using that by (cases ys) auto
  moreover have "\<forall>y \<in> set (sort_key f xs). f x \<le> f y" using a by simp
  ultimately show ?thesis by simp
qed

lemma fresh_session_rows: "sid \<notin> fst ` set (messages w) \<Longrightarrow> session_rows w sid = []"
  by (force simp: session_rows_def filter_empty_conv)

lemma session_rows_append:
  "messages w' = messages w @ rows \<Longrightarrow>
   session_rows w' sid =
     session_rows w sid
       @ map (\<lambda>(s, role, content, ts). (role, content, ts))
           (filter (\<lambda>(s, role, content, ts). s = sid) rows)"
  by (simp add: session_rows_def)

text \<open>
  C5, as the code has it. When \<open>create_session\<close> returns an identifier, the engine has
  stored the welcome message, no message was stored under that identifier before, and
  the clock never steps back, the session's log in timestamp order is the welcome
  message alone, with role \<open>assistant\<close>, as soon as \<open>create_session\<close> has returned, and
  the welcome message stays first whatever operations run afterwards.
\<close>

theorem welcome_message_first:
  assumes "create_session_with refused_session refused_welcome E phone title w = (sid, w1)"
    and "sid \<noteq> []" and "\<not> refused_welcome"
    and "sid \<notin> fst ` set (messages w)" and "mono (clock E)"
  shows "get_messages w1 sid None =
           [(''assistant'', new_session_created, clock E (Suc (ticks w)))]
     \<and> (\<exists>rest. get_messages (run E ops w1) sid None =
           (''assistant'', new_session_created, clock E (Suc (ticks w))) # rest)"
proof -
  let ?greeting = "(''assistant'', new_session_created, clock E (Suc (ticks w)))"
  have "\<not> refused_session"
    using assms(1,2)
    by (auto simp: create_session_with_def new_uuid_def now_def db_create_session_def Let_def
        split: prod.splits if_splits)
  with assms(1,3) have made: "create_session E phone title w = (sid, w1)"
    by (simp add: create_session_def)
  have r1: "session_rows w1 sid = [?greeting]"
    using create_session_success(2)[OF made assms(2), of sid] fresh_session_rows[OF assms(4)]
    by simp
  have t1: "ticks w1 = Suc (Suc (ticks w))"
    by (rule create_session_success(3)[OF made assms(2)])
  have first: "get_messages w1 sid None = [?greeting]"
    by (simp add: get_messages_rows r1)
  have "extends E w1 (run E ops w1)" by (rule extends_run) simp
  then obtain rows where rows: "messages (run E ops w1) = messages w1 @ rows"
    "list_all (\<lambda>(s, role, content, ts). \<exists>k. ticks w1 \<le> k \<and> ts = clock E k) rows"
    unfolding extends_def by blast
  define later where
    "later = map (\<lambda>(s, role, content, ts). (role, content, ts))
               (filter (\<lambda>(s, role, content, ts). s = sid) rows)"
  have rr: "session_rows (run E ops w1) sid = ?greeting # later"
    using session_rows_append[OF rows(1), of sid] r1 by (simp add: later_def)
  have "clock E (Suc (ticks w)) \<le> ts" if "(role, content, ts) \<in> set later" for role content ts
  proof -
    from that obtain s where "(s, role, content, ts) \<in> set rows"
      by (auto simp: later_def)
    with rows(2) obtain k where k: "ticks w1 \<le> k" "ts = clock E k"
      by (auto simp: list_all_iff)
    from k(1) t1 have "Suc (ticks w) \<le> k" by simp
    with assms(5) have "clock E (Suc (ticks w)) \<le> clock E k" by (rule monoD)
    with k(2) show ?thesis by simp
  qed
  then have "\<forall>y \<in> set later. (\<lambda>(role, content, ts). ts) ?greeting \<le> (\<lambda>(role, content, ts). ts) y"
    by auto
  then have "sort_key (\<lambda>(role, content, ts). ts) (?greeting # later) =
      ?greeting # sort_key (\<lambda>(role, content, ts). ts) later"
    by (rule sort_key_least_first)
  then have "get_messages (run E ops w1) sid None =
      ?greeting # sort_key (\<lambda>(role, content, ts). ts) later"
    by (simp add: get_messages_rows rr)
  with first show ?thesis by blast
qed

theorem welcome_message_first_witness:
  "get_messages (snd (create_session_with False False plain_env ''13800000000'' [] empty_world))
     ''00000000-0000-4000-8000-000000000000'' None = [(''assistant'', new_session_created, 1)]
   \<and> (\<exists>rest.
        get_messages
          (run plain_env
             [AddMessage ''00000000-0000-4000-8000-000000000000'' ''user'' ''hi'',
              ProcessMessage ''more'' ''00000000-0000-4000-8000-000000000000'' ''13800000000'']
             (snd (create_session_with False False plain_env ''13800000000'' [] empty_world)))
          ''00000000-0000-4000-8000-000000000000'' None
        = (''assistant'', new_session_created, 1) # rest)"
proof -
  have sid: "fst (create_session_with False False plain_env ''13800000000'' [] empty_world)
      = ''00000000-0000-4000-8000-000000000000''"
    by code_simp
  have a: "create_session_with False False plain_env ''13800000000'' [] empty_world =
      (''00000000-0000-4000-8000-000000000000'',
       snd (create_session_with False False plain_env ''13800000000'' [] empty_world))"
    using sid by (metis prod.collapse)
  have b: "''00000000-0000-4000-8000-000000000000'' \<noteq> []" by simp
  have c: "''00000000-0000-4000-8000-000000000000'' \<notin> fst ` set (messages empty_world)"
    by (simp add: empty_world_def)
  have d: "mono (clock plain_env)" by (simp add: plain_env_def mono_def)
  have e: "clock plain_env (Suc (ticks empty_world)) = 1"
    by (simp add: plain_env_def empty_world_def)
  have f: "\<not> False" by simp
  show ?thesis
    using welcome_message_first[OF a b f c d] unfolding e by blast
qed

text \<open>
  C5 as stated fails in two ways. On the empty store, where the engine stores the
  session row and refuses the welcome row, \<open>create_session\<close> returns the new identifier
  and the session's log is empty. Where the clock steps back, the welcome message of a
  new session is followed in the log's order by the user message stored after it.
\<close>

theorem welcome_message_first_counterexample:
  "fst (create_session_with False True plain_env ''13800000000'' [] empty_world)
     = ''00000000-0000-4000-8000-000000000000''
   \<and> get_messages (snd (create_session_with False True plain_env ''13800000000'' [] empty_world))
       ''00000000-0000-4000-8000-000000000000'' None = []
   \<and> fst (create_session backward_env ''13800000000'' [] empty_world)
       = ''00000000-0000-4000-8000-000000000000''
   \<and> get_messages
         (snd (add_message backward_env ''00000000-0000-4000-8000-000000000000'' ''user'' ''hi''
                 (snd (create_session backward_env ''13800000000'' [] empty_world))))
         ''00000000-0000-4000-8000-000000000000'' None
       = [(''user'', ''hi'', 8), (''assistant'', new_session_created, 9)]"
  by code_simp

text \<open>
  Rows stored under an identifier before \<open>create_session\<close> mints it come before the
  welcome message: the \<open>messages\<close> table takes rows for any identifier.
\<close>

lemma earlier_rows_precede_welcome:
  "message_roles
     (snd (create_session plain_env ''13800000000'' []
             (snd (add_message plain_env ''00000000-0000-4000-8000-000000000000'' ''user'' ''hi''
                     empty_world))))
     ''00000000-0000-4000-8000-000000000000'' = [''user'', ''assistant'']"
  by code_simp

text \<open>
  C4, at the first exchange. Take a session just made by \<open>create_session\<close> under an
  identifier with no earlier messages, store the first user turn and then the first
  assistant reply, and let any further messages follow: the rename trigger has not fired
  for the session. The welcome message is row 1, so the log holds two rows when the user
  turn is stored, whose role skips the check, and three rows when the reply is checked.
\<close>

theorem auto_rename_skips_first_exchange:
  assumes "create_session E phone title w = (sid, w1)" and "sid \<noteq> []"
    and "sid \<notin> fst ` set (messages w)"
  shows "rename_checks (add_messages E [(sid, ''user'', question)] w1) sid = rename_checks w sid
     \<and> rename_checks
           (add_messages E [(sid, ''user'', question), (sid, ''assistant'', reply)] w1) sid
         = rename_checks w sid
     \<and> length (get_messages
           (add_messages E [(sid, ''user'', question), (sid, ''assistant'', reply)] w1) sid None)
         = 3
     \<and> rename_checks
           (add_messages E ((sid, ''user'', question) # (sid, ''assistant'', reply) # later) w1)
           sid
         = rename_checks w sid"
proof -
  have fresh: "session_rows w sid = []" by (rule fresh_session_rows[OF assms(3)])
  have r1: "session_rows w1 sid = [(''assistant'', new_session_created, clock E (Suc (ticks w)))]"
    using create_session_success(2)[OF assms(1,2), of sid] fresh by simp
  have c1: "rename_checks w1 sid = rename_checks w sid"
    using create_session_success(4)[OF assms(1,2), of sid] fresh by simp
  let ?w2 = "snd (add_message E sid ''user'' question w1)"
  let ?w3 = "snd (add_message E sid ''assistant'' reply ?w2)"
  have c2: "rename_checks ?w2 sid = rename_checks w1 sid"
    by (simp add: add_message_checks)
  have r2: "length (session_rows ?w2 sid) = 2"
    by (simp add: session_rows_add r1)
  have c3: "rename_checks ?w3 sid = rename_checks ?w2 sid"
    using r2 by (simp add: add_message_checks)
  have r3: "length (session_rows ?w3 sid) = 3"
    using r2 by (simp add: session_rows_add)
  then have "2 \<le> length (session_rows ?w3 sid)" by simp
  then have "rename_checks (add_messages E later ?w3) sid = rename_checks ?w3 sid"
    by (rule add_messages_checks_stable)
  then show ?thesis using c1 c2 c3 r3 by (simp add: length_get_messages)
qed

theorem auto_rename_skips_first_exchange_witness:
  "rename_checks
     (add_messages plain_env
        [(''00000000-0000-4000-8000-000000000000'', ''user'', ''hi''),
         (''00000000-0000-4000-8000-000000000000'', ''assistant'', ''hello'')]
        (snd (create_session plain_env ''13800000000'' [] empty_world)))
     ''00000000-0000-4000-8000-000000000000'' = 0
   \<and> message_roles
       (add_messages plain_env
          [(''00000000-0000-4000-8000-000000000000'', ''user'', ''hi''),
           (''00000000-0000-4000-8000-000000000000'', ''assistant'', ''hello'')]
          (snd (create_session plain_env ''13800000000'' [] empty_world)))
       ''00000000-0000-4000-8000-000000000000'' = [''assistant'', ''user'', ''assistant'']"
proof -
  have sid: "fst (create_session plain_env ''13800000000'' [] empty_world)
      = ''00000000-0000-4000-8000-000000000000''"
    by code_simp
  have a: "create_session plain_env ''13800000000'' [] empty_world =
      (''00000000-0000-4000-8000-000000000000'',
       snd (create_session plain_env ''13800000000'' [] empty_world))"
    using sid by (metis prod.collapse)
  have b: "''00000000-0000-4000-8000-000000000000'' \<noteq> []" by simp
  have c: "''00000000-0000-4000-8000-000000000000'' \<notin> fst ` set (messages empty_world)"
    by (simp add: empty_world_def)
  have z: "rename_checks empty_world ''00000000-0000-4000-8000-000000000000'' = 0"
    by (simp add: rename_checks_def empty_world_def)
  have roles: "message_roles
       (add_messages plain_env
          [(''00000000-0000-4000-8000-000000000000'', ''user'', ''hi''),
           (''00000000-0000-4000-8000-000000000000'', ''assistant'', ''hello'')]
          (snd (create_session plain_env ''13800000000'' [] empty_world)))
       ''00000000-0000-4000-8000-000000000000'' = [''assistant'', ''user'', ''assistant'']"
    by code_simp
  show ?thesis
    using auto_rename_skips_first_exchange[OF a b c, of "''hi''" "''hello''" "[]"] z roles
    by simp
qed

section \<open>Message processing under an invalid session id\<close>

lemma route_messages:
  "messages (snd (route E intent u sid h w)) = messages w"
  "ticks (snd (route E intent u sid h w)) = ticks w"
  using route_world[of E intent u sid h w] by auto

lemma session_rows_route:
  "session_rows (snd (route E intent u sid h w)) s = session_rows w s"
  by (rule session_rows_cong) (rule route_messages)

text \<open>
  C8, at a session id that is no UUID. \<open>process_message\<close> then creates a fresh session,
  but stores the user turn and the reply under the identifier it was given: the fresh
  session's log gains the welcome message only, the log kept under the invalid identifier
  gains both turns, and the invalid identifier is what the call hands back.
\<close>

theorem process_message_invalid_session_id:
  assumes "uuid_str E sid = None" and "py_strip body \<noteq> []"
    and "create_session E phone [] w = (fresh, w1)" and "fresh \<noteq> []" and "fresh \<noteq> sid"
  shows "session_rows (snd (process_message E body sid phone history w)) fresh =
           session_rows w fresh
             @ [(''assistant'', new_session_created, clock E (Suc (ticks w)))]
     \<and> (\<exists>reply. session_rows (snd (process_message E body sid phone history w)) sid =
           session_rows w sid
             @ [(''user'', py_strip body, clock E (Suc (Suc (ticks w)))),
                (''assistant'', reply, clock E (Suc (Suc (Suc (ticks w)))))])
     \<and> snd (fst (process_message E body sid phone history w)) = sid"
proof -
  define w2 where "w2 = snd (add_message E sid ''user'' (py_strip body) w1)"
  define hist where "hist = map (\<lambda>(role, content, ts). (role, content)) (get_messages w2 sid None)"
  define out where "out = route E (recognize E (py_strip body)) (py_strip body) sid hist w2"
  define reply where "reply = (case fst out of Inr r \<Rightarrow> r | Inl e \<Rightarrow> error_occurred)"
  define w4 where "w4 = snd (add_message E sid ''assistant'' reply (snd out))"
  have pm: "process_message E body sid phone history w =
      ((map (\<lambda>(role, content, ts). (role, content)) (get_messages w4 sid None), sid), w4)"
    using assms(1,2,3)
    by (simp add: process_message_def Let_def split_beta w2_def hist_def out_def reply_def w4_def)
  have t1: "ticks w1 = Suc (Suc (ticks w))"
    by (rule create_session_success(3)[OF assms(3,4)])
  have r1: "session_rows w1 s =
      session_rows w s
        @ (if s = fresh then [(''assistant'', new_session_created, clock E (Suc (ticks w)))] else [])"
    for s by (rule create_session_success(2)[OF assms(3,4)])
  have t2: "ticks w2 = Suc (Suc (Suc (ticks w)))"
    by (simp add: w2_def add_message_fields t1)
  have r2: "session_rows w2 s =
      session_rows w1 s @ (if sid = s then [(''user'', py_strip body, clock E (Suc (Suc (ticks w))))] else [])"
    for s by (simp add: w2_def session_rows_add t1)
  have r3: "session_rows (snd out) s = session_rows w2 s" for s
    by (simp add: out_def session_rows_route)
  have t3: "ticks (snd out) = ticks w2" by (simp add: out_def route_messages)
  have r4: "session_rows w4 s =
      session_rows w2 s
        @ (if sid = s then [(''assistant'', reply, clock E (Suc (Suc (Suc (ticks w)))))] else [])"
    for s by (simp add: w4_def session_rows_add r3 t3 t2)
  have a: "session_rows w4 fresh =
      session_rows w fresh @ [(''assistant'', new_session_created, clock E (Suc (ticks w)))]"
    using assms(5) by (simp add: r4 r2 r1)
  have b: "session_rows w4 sid =
      session_rows w sid
        @ [(''user'', py_strip body, clock E (Suc (Suc (ticks w)))),
           (''assistant'', reply, clock E (Suc (Suc (Suc (ticks w)))))]"
    using assms(5) by (simp add: r4 r2 r1)
  show ?thesis using a b by (auto simp: pm)
qed

theorem process_message_invalid_session_id_witness:
  "uuid_str plain_env ''not-a-uuid'' = None
   \<and> session_rows
       (snd (process_message plain_env ''hello'' ''not-a-uuid'' ''13800000000'' [] empty_world))
       ''00000000-0000-4000-8000-000000000000''
     = [(''assistant'', new_session_created, 1)]
   \<and> session_rows
       (snd (process_message plain_env ''hello'' ''not-a-uuid'' ''13800000000'' [] empty_world))
       ''not-a-uuid''
     = [(''user'', ''hello'', 2), (''assistant'', UNKNOWN_INTENT_REPLY, 3)]
   \<and> snd (fst (process_message plain_env ''hello'' ''not-a-uuid'' ''13800000000'' [] empty_world))
     = ''not-a-uuid''"
proof -
  have a: "uuid_str plain_env ''not-a-uuid'' = None" by code_simp
  have b: "py_strip ''hello'' \<noteq> []" by code_simp
  have sid: "fst (create_session plain_env ''13800000000'' [] empty_world)
      = ''00000000-0000-4000-8000-000000000000''"
    by code_simp
  have c: "create_session plain_env ''13800000000'' [] empty_world =
      (''00000000-0000-4000-8000-000000000000'',
       snd (create_session plain_env ''13800000000'' [] empty_world))"
    using sid by (metis prod.collapse)
  have d: "''00000000-0000-4000-8000-000000000000'' \<noteq> []" by simp
  have e: "''00000000-0000-4000-8000-000000000000'' \<noteq> ''not-a-uuid''" by simp
  have rows: "session_rows
       (snd (process_message plain_env ''hello'' ''not-a-uuid'' ''13800000000'' [] empty_world))
       ''not-a-uuid''
     = [(''user'', ''hello'', 2), (''assistant'', UNKNOWN_INTENT_REPLY, 3)]"
    by code_simp
  have z: "session_rows empty_world s = []" for s
    by (simp add: session_rows_def empty_world_def)
  have k: "clock plain_env (Suc (ticks empty_world)) = 1"
    by (simp add: plain_env_def empty_world_def)
  show ?thesis
    using process_message_invalid_session_id[OF a b c d e, of "[]"] a rows
    by (simp add: z k)
qed

section \<open>Ingestion notifications\<close>

lemma add_batches_rows:
  "\<exists>rows. messages (snd (add_batches E s name n entries starts w)) = messages w @ rows
     \<and> list_all (\<lambda>(s', role, content, ts). s' = s \<and> role = ''system'') rows
     \<and> (fst (add_batches E s name n entries starts w) \<longrightarrow>
          length rows = (if 100 < n then length starts else 0))"
proof (induction starts arbitrary: w)
  case Nil
  show ?case by simp
next
  case (Cons i starts)
  define batch where "batch = take (min (i + 50) n - i) (drop i entries)"
  show ?case
  proof (cases "add_error E name batch")
    case True
    then show ?thesis by (simp add: Let_def batch_def)
  next
    case False
    define w1 where "w1 = put_collection name (stored_in w name @ batch) w"
    define w2 where
      "w2 = (if 100 < n then
               snd (add_message E s ''system''
                      (PROGRESS_BATCH_PREFIX @ fmt_percent E (min (i + 50) n) n @ ''%'') w1)
             else w1)"
    have step: "add_batches E s name n entries (i # starts) w =
        add_batches E s name n entries starts w2"
      using False by (simp add: Let_def batch_def w1_def w2_def)
    obtain rows where rows: "messages (snd (add_batches E s name n entries starts w2)) =
        messages w2 @ rows"
      "list_all (\<lambda>(s', role, content, ts). s' = s \<and> role = ''system'') rows"
      "fst (add_batches E s name n entries starts w2) \<longrightarrow>
          length rows = (if 100 < n then length starts else 0)"
      using Cons.IH[of w2] by blast
    show ?thesis
    proof (cases "100 < n")
      case True
      then have m2: "messages w2 = messages w @
          [(s, ''system'', PROGRESS_BATCH_PREFIX @ fmt_percent E (min (i + 50) n) n @ ''%'',
            clock E (ticks w))]"
        by (simp add: w2_def w1_def add_message_fields)
      show ?thesis
        unfolding step using rows True
        by (intro exI[of _ "(s, ''system'',
              PROGRESS_BATCH_PREFIX @ fmt_percent E (min (i + 50) n) n @ ''%'',
              clock E (ticks w)) # rows"]) (simp add: m2)
    next
      case False
      then have m2: "messages w2 = messages w" by (simp add: w2_def w1_def)
      show ?thesis
        unfolding step using rows False
        by (intro exI[of _ rows]) (simp add: m2)
    qed
  qed
qed

lemma store_chunks_rows:
  "\<exists>rows content ts.
     messages (snd (store_chunks E s path fname ftype chunks w)) =
       messages w @ rows
         @ [(s, if fst (store_chunks E s path fname ftype chunks w) then ''assistant''
                else ''system'', content, ts)]
     \<and> list_all (\<lambda>(s', role, content, ts). s' = s \<and> role = ''system'') rows
     \<and> (fst (store_chunks E s path fname ftype chunks w) \<longrightarrow>
          length rows =
            (if 100 < length chunks then length (batch_starts (length chunks)) else 0))"
proof (cases "collection_error E (collection_name s)")
  case True
  then show ?thesis
    by (intro exI[of _ "[]"] exI[of _ VECTOR_DB_FAILED_TEXT] exI[of _ "clock E (ticks w)"])
      (simp add: store_chunks_def Let_def add_message_fields)
next
  case False
  note no_err = False
  define w3 where
    "w3 = advance_minted (length chunks) (get_or_create_collection (collection_name s) w)"
  have m3: "messages w3 = messages w"
    by (simp add: w3_def get_or_create_collection_def split: option.splits)
  show ?thesis
  proof (cases "path_resolve E path")
    case (Inl e)
    then show ?thesis
      using no_err
      by (intro exI[of _ "[]"] exI[of _ "CRASH_PREFIX @ fname"] exI[of _ "clock E (ticks w3)"])
        (simp add: store_chunks_def Let_def add_message_fields w3_def[symmetric] m3)
  next
    case (Inr abs_path)
    define entries where
      "entries = make_entries E (get_or_create_collection (collection_name s) w) s fname
                   abs_path ftype chunks"
    define w4 where "w4 = advance_ticks (length chunks) w3"
    define res where
      "res = add_batches E s (collection_name s) (length chunks) entries
               (batch_starts (length chunks)) w4"
    have m4: "messages w4 = messages w" by (simp add: w4_def m3)
    obtain rows where rows: "messages (snd res) = messages w4 @ rows"
      "list_all (\<lambda>(s', role, content, ts). s' = s \<and> role = ''system'') rows"
      "fst res \<longrightarrow>
          length rows = (if 100 < length chunks then length (batch_starts (length chunks)) else 0)"
      unfolding res_def
      using add_batches_rows[of E s "collection_name s" "length chunks" entries
          "batch_starts (length chunks)" w4]
      by blast
    have sc: "store_chunks E s path fname ftype chunks w =
        (if fst res then
           (True, snd (add_message E s ''assistant''
                    (SUCCESS_PREFIX @ fname @ '' ('' @ py_str_nat (length chunks) @ SUCCESS_SUFFIX)
                    (snd res)))
         else (False, snd (add_message E s ''system'' (STORE_FAILED_PREFIX @ fname) (snd res))))"
      using no_err Inr
      by (simp add: store_chunks_def Let_def split_beta w3_def w4_def entries_def res_def)
    show ?thesis
    proof (cases "fst res")
      case True
      show ?thesis
        unfolding sc using True rows
        by (intro exI[of _ rows] exI[of _ "SUCCESS_PREFIX @ fname @ '' (''
              @ py_str_nat (length chunks) @ SUCCESS_SUFFIX"] exI[of _ "clock E (ticks (snd res))"])
          (simp add: add_message_fields m4)
    next
      case False
      show ?thesis
        unfolding sc using False rows
        by (intro exI[of _ rows] exI[of _ "STORE_FAILED_PREFIX @ fname"]
              exI[of _ "clock E (ticks (snd res))"])
          (simp add: add_message_fields m4)
    qed
  qed
qed

text \<open>
  C7, as the code has it. A session id that is no UUID ends processing at once, with no
  entry in any log. Otherwise the entries \<open>process_file\<close> appends to the message log are,
  in order: one entry with role \<open>system\<close> announcing the start; progress entries with
  role \<open>system\<close>, which on success number one per batch of 50 when the document has
  more than 100 chunks and none otherwise; and one closing entry, with role \<open>system\<close>
  when processing failed and with role \<open>assistant\<close> when it succeeded. All of them are
  stored under the canonical spelling of the session id.
\<close>

theorem process_file_notifications:
  "(uuid_str E sid = None \<longrightarrow> process_file E sid path fname ftype w = (False, w))
   \<and> (\<forall>s. uuid_str E sid = Some s \<longrightarrow>
        (\<exists>rows content ts.
           messages (snd (process_file E sid path fname ftype w)) =
             messages w
               @ [(s, ''system'', PROGRESS_START_PREFIX @ fname @ ''...'', clock E (ticks w))]
               @ rows
               @ [(s, if fst (process_file E sid path fname ftype w) then ''assistant''
                      else ''system'', content, ts)]
           \<and> list_all (\<lambda>(s', role, content, ts). s' = s \<and> role = ''system'') rows
           \<and> (\<forall>documents chunks.
                 load_document E path ftype = Some documents \<longrightarrow>
                 split_documents E documents = Inr chunks \<longrightarrow>
                 fst (process_file E sid path fname ftype w) \<longrightarrow>
                 length rows =
                   (if 100 < length chunks then length (batch_starts (length chunks)) else 0))))"
proof (intro conjI allI impI)
  assume "uuid_str E sid = None"
  then show "process_file E sid path fname ftype w = (False, w)"
    by (simp add: process_file_def)
next
  fix s
  assume s: "uuid_str E sid = Some s"
  define w1 where
    "w1 = snd (add_message E s ''system'' (PROGRESS_START_PREFIX @ fname @ ''...'') w)"
  have m1: "messages w1 =
      messages w @ [(s, ''system'', PROGRESS_START_PREFIX @ fname @ ''...'', clock E (ticks w))]"
    by (simp add: w1_def add_message_fields)
  let ?goal = "\<exists>rows content ts.
           messages (snd (process_file E sid path fname ftype w)) =
             messages w
               @ [(s, ''system'', PROGRESS_START_PREFIX @ fname @ ''...'', clock E (ticks w))]
               @ rows
               @ [(s, if fst (process_file E sid path fname ftype w) then ''assistant''
                      else ''system'', content, ts)]
           \<and> list_all (\<lambda>(s', role, content, ts). s' = s \<and> role = ''system'') rows
           \<and> (\<forall>documents chunks.
                 load_document E path ftype = Some documents \<longrightarrow>
                 split_documents E documents = Inr chunks \<longrightarrow>
                 fst (process_file E sid path fname ftype w) \<longrightarrow>
                 length rows =
                   (if 100 < length chunks then length (batch_starts (length chunks)) else 0))"
  have failed: ?goal
    if "process_file E sid path fname ftype w = (False, snd (add_message E s ''system'' c w1))"
    for c
    unfolding that
    by (rule exI[of _ "[]"], rule exI[of _ c], rule exI[of _ "clock E (ticks w1)"])
      (simp add: add_message_fields m1)
  show ?goal
  proof (cases "load_document E path ftype")
    case None
    then show ?thesis
      using s by (intro failed) (simp add: process_file_def Let_def w1_def)
  next
    case (Some documents)
    note loaded = Some
    show ?thesis
    proof (cases "split_documents E documents")
      case (Inl e)
      then show ?thesis
        using s loaded by (intro failed) (simp add: process_file_def Let_def w1_def)
    next
      case (Inr chunks)
      note split = Inr
      show ?thesis
      proof (cases chunks)
        case Nil
        then show ?thesis
          using s loaded split by (intro failed) (simp add: process_file_def Let_def w1_def)
      next
        case (Cons c cs)
        have pf: "process_file E sid path fname ftype w =
            store_chunks E s path fname ftype chunks w1"
          using s loaded split Cons by (simp add: process_file_def Let_def w1_def)
        obtain rows content ts where rows:
          "messages (snd (store_chunks E s path fname ftype chunks w1)) =
             messages w1 @ rows
               @ [(s, if fst (store_chunks E s path fname ftype chunks w1) then ''assistant''
                      else ''system'', content, ts)]"
          "list_all (\<lambda>(s', role, content, ts). s' = s \<and> role = ''system'') rows"
          "fst (store_chunks E s path fname ftype chunks w1) \<longrightarrow>
             length rows =
               (if 100 < length chunks then length (batch_starts (length chunks)) else 0)"
          using store_chunks_rows[of E s path fname ftype chunks w1] by blast
        show ?thesis
          unfolding pf using rows loaded split
          by (intro exI[of _ rows] exI[of _ content] exI[of _ ts]) (simp add: m1)
      qed
    qed
  qed
qed

lemma add_batches_stored:
  "\<forall>batch. \<not> add_error E name batch \<Longrightarrow> fst (add_batches E s name n entries starts w)"
  by (induction starts arbitrary: w) (simp_all add: Let_def)

theorem process_file_notifications_witness:
  "process_file plain_env ''not-a-uuid'' ''/tmp/a.txt'' ''a.txt'' ''txt'' empty_world
     = (False, empty_world)
   \<and> (\<exists>rows content ts.
        messages (snd (process_file bulk_env ''00000000-0000-4000-8000-000000000000''
                          ''/tmp/a.txt'' ''a.txt'' ''txt'' empty_world)) =
          [(''00000000-0000-4000-8000-000000000000'', ''system'',
            PROGRESS_START_PREFIX @ ''a.txt...'', 0)]
            @ rows @ [(''00000000-0000-4000-8000-000000000000'', ''assistant'', content, ts)]
        \<and> list_all (\<lambda>(s', role, content, ts).
                       s' = ''00000000-0000-4000-8000-000000000000'' \<and> role = ''system'') rows
        \<and> length rows = 3)"
proof -
  let ?sid = "''00000000-0000-4000-8000-000000000000''"
  have a: "uuid_str plain_env ''not-a-uuid'' = None" by code_simp
  have b: "uuid_str bulk_env ?sid = Some ?sid" by code_simp
  have l: "load_document bulk_env ''/tmp/a.txt'' ''txt'' = Some [''text'']" by code_simp
  have sp: "split_documents bulk_env [''text''] = Inr (replicate 120 ''chunk'')"
    by (simp add: bulk_env_def)
  have ne: "\<forall>batch. \<not> add_error bulk_env name batch" for name
    by (simp add: bulk_env_def plain_env_def)
  have r: "replicate 120 ''chunk'' = ''chunk'' # replicate 119 ''chunk''"
    by (simp add: replicate_Suc[symmetric] del: replicate_Suc)
  have sc: "fst (store_chunks bulk_env ?sid ''/tmp/a.txt'' ''a.txt'' ''txt''
                  (replicate 120 ''chunk'') w1)" for w1
    using add_batches_stored[OF ne]
    by (simp add: store_chunks_def Let_def split_beta bulk_env_def plain_env_def)
  have ok: "fst (process_file bulk_env ?sid ''/tmp/a.txt'' ''a.txt'' ''txt'' empty_world)"
    unfolding process_file_def Let_def using sc
    by (simp only: b l sp option.case sum.case r list.case)
  have n: "(if 100 < length (replicate 120 ''chunk'')
            then length (batch_starts (length (replicate 120 ''chunk''))) else 0) = 3"
    by (simp add: batch_starts_def)
  have e: "messages empty_world = []" "clock bulk_env (ticks empty_world) = 0"
    by (simp_all add: empty_world_def bulk_env_def plain_env_def)
  from process_file_notifications[of plain_env "''not-a-uuid''" "''/tmp/a.txt''" "''a.txt''"
      "''txt''" empty_world] a
  have first: "process_file plain_env ''not-a-uuid'' ''/tmp/a.txt'' ''a.txt'' ''txt'' empty_world
     = (False, empty_world)" by blast
  from process_file_notifications[of bulk_env ?sid "''/tmp/a.txt''" "''a.txt''" "''txt''"
      empty_world] b
  obtain rows content ts where rows:
    "messages (snd (process_file bulk_env ?sid ''/tmp/a.txt'' ''a.txt'' ''txt'' empty_world)) =
       messages empty_world
         @ [(?sid, ''system'', PROGRESS_START_PREFIX @ ''a.txt'' @ ''...'',
             clock bulk_env (ticks empty_world))]
         @ rows
         @ [(?sid,
             if fst (process_file bulk_env ?sid ''/tmp/a.txt'' ''a.txt'' ''txt'' empty_world)
             then ''assistant'' else ''system'', content, ts)]"
    "list_all (\<lambda>(s', role, content, ts). s' = ?sid \<and> role = ''system'') rows"
    "\<forall>documents chunks.
        load_document bulk_env ''/tmp/a.txt'' ''txt'' = Some documents \<longrightarrow>
        split_documents bulk_env documents = Inr chunks \<longrightarrow>
        fst (process_file bulk_env ?sid ''/tmp/a.txt'' ''a.txt'' ''txt'' empty_world) \<longrightarrow>
        length rows =
          (if 100 < length chunks then length (batch_starts (length chunks)) else 0)"
    by blast
  from rows(3) l sp ok have len: "length rows = 3" unfolding n[symmetric] by blast
  have "\<exists>rows content ts.
        messages (snd (process_file bulk_env ?sid ''/tmp/a.txt'' ''a.txt'' ''txt'' empty_world)) =
          [(?sid, ''system'', PROGRESS_START_PREFIX @ ''a.txt...'', 0)]
            @ rows @ [(?sid, ''assistant'', content, ts)]
        \<and> list_all (\<lambda>(s', role, content, ts). s' = ?sid \<and> role = ''system'') rows
        \<and> length rows = 3"
    using rows(1,2) ok len e by (intro exI[of _ rows] exI[of _ content] exI[of _ ts]) simp
  with first show ?thesis by blast
qed

text \<open>
  A text file of one chunk is processed with success: the log of its session then holds
  the start entry with role \<open>system\<close> and the closing entry with role \<open>assistant\<close>, and
  no entry with role \<open>system\<close> reports the success.
\<close>

theorem process_file_success_role_counterexample:
  "fst (process_file plain_env ''00000000-0000-4000-8000-000000000000'' ''/tmp/a.txt''
          ''a.txt'' ''txt'' empty_world)
   \<and> message_roles
       (snd (process_file plain_env ''00000000-0000-4000-8000-000000000000'' ''/tmp/a.txt''
               ''a.txt'' ''txt'' empty_world))
       ''00000000-0000-4000-8000-000000000000''
     = [''system'', ''assistant'']"
  by code_simp

section \<open>Session isolation of the vector store\<close>

lemma tagged_empty: "tagged empty_world"
  by (simp add: tagged_def empty_world_def)

lemma tagged_cong: "collections w' = collections w \<Longrightarrow> tagged w \<Longrightarrow> tagged w'"
  by (simp add: tagged_def)

lemma tagged_put_empty: "tagged w \<Longrightarrow> tagged (put_collection name [] w)"
  by (simp add: tagged_def)

lemma tagged_put_batch:
  "tagged w \<Longrightarrow> list_all (\<lambda>c. collection_name (session_id c) = name) batch \<Longrightarrow>
   tagged (put_collection name (stored_in w name @ batch) w)"
  by (auto simp: tagged_def stored_in_def split: option.splits)

lemma tagged_prims:
  "tagged w \<Longrightarrow> tagged (advance_ticks n w)"
  "tagged w \<Longrightarrow> tagged (advance_minted n w)"
  "tagged w \<Longrightarrow> tagged (get_or_create_collection name w)"
  "tagged w \<Longrightarrow> tagged (snd (add_message E s role content w))"
  by (auto simp: tagged_def get_or_create_collection_def add_message_fields split: option.splits)

lemma create_session_collections:
  "collections (snd (create_session E phone title w)) = collections w"
  by (simp add: create_session_eq new_uuid_def now_def db_create_session_def Let_def
      add_message_fields)

lemma tagged_create_session: "tagged w \<Longrightarrow> tagged (snd (create_session E phone title w))"
  using create_session_collections by (rule tagged_cong)

lemma tagged_rag_query: "tagged w \<Longrightarrow> tagged (snd (rag_query E q sid w))"
  using rag_query_world[of E q sid w] by (auto intro: tagged_put_empty)

lemma tagged_route: "tagged w \<Longrightarrow> tagged (snd (route E i u sid h w))"
  using route_world[of E i u sid h w] by (auto intro: tagged_put_empty)

lemma make_entries_session:
  "c \<in> set (make_entries E w s fname abs_path ftype chunks) \<Longrightarrow> session_id c = s"
  by (auto simp: make_entries_def)

lemma stored_chunks_cong: "collections w' = collections w \<Longrightarrow> stored_chunks w' = stored_chunks w"
  by (simp add: stored_chunks_def)

lemma stored_chunks_put:
  "c \<in> stored_chunks (put_collection name (stored_in w name @ batch) w) \<Longrightarrow>
   c \<in> stored_chunks w \<or> c \<in> set batch"
  by (auto simp: stored_chunks_def stored_in_def split: option.splits if_splits)

lemma stored_chunks_create:
  "stored_chunks (get_or_create_collection name w) = stored_chunks w"
proof (cases "collections w name")
  case None
  have "c \<in> stored_chunks (put_collection name [] w) \<longleftrightarrow> c \<in> stored_chunks w" for c
  proof
    assume "c \<in> stored_chunks (put_collection name [] w)"
    then obtain n es where "((collections w)(name \<mapsto> [])) n = Some es" "c \<in> set es"
      by (auto simp: stored_chunks_def)
    then have "collections w n = Some es" "c \<in> set es"
      by (auto split: if_splits)
    then show "c \<in> stored_chunks w" by (auto simp: stored_chunks_def)
  next
    assume "c \<in> stored_chunks w"
    then obtain n es where n: "collections w n = Some es" "c \<in> set es"
      by (auto simp: stored_chunks_def)
    with None have "n \<noteq> name" by auto
    with n have "((collections w)(name \<mapsto> [])) n = Some es" by simp
    with n(2) show "c \<in> stored_chunks (put_collection name [] w)"
      unfolding stored_chunks_def put_collection_fields by blast
  qed
  then show ?thesis using None by (auto simp: get_or_create_collection_def)
next
  case (Some es)
  then show ?thesis by (simp add: get_or_create_collection_def)
qed

lemma add_batches_store:
  assumes "\<forall>c \<in> set entries. session_id c = s"
  shows "(tagged w \<longrightarrow> tagged (snd (add_batches E s (collection_name s) n entries starts w)))
     \<and> (\<forall>c \<in> stored_chunks (snd (add_batches E s (collection_name s) n entries starts w)).
           c \<in> stored_chunks w \<or> session_id c = s)"
proof (induction starts arbitrary: w)
  case Nil
  show ?case by simp
next
  case (Cons i starts)
  define batch where "batch = take (min (i + 50) n - i) (drop i entries)"
  have batch_s: "\<forall>c \<in> set batch. session_id c = s"
    using assms by (auto simp: batch_def dest: in_set_takeD in_set_dropD)
  show ?case
  proof (cases "add_error E (collection_name s) batch")
    case True
    then show ?thesis by (simp add: Let_def batch_def)
  next
    case False
    define w1 where "w1 = put_collection (collection_name s) (stored_in w (collection_name s) @ batch) w"
    define w2 where
      "w2 = (if 100 < n then
               snd (add_message E s ''system''
                      (PROGRESS_BATCH_PREFIX @ fmt_percent E (min (i + 50) n) n @ ''%'') w1)
             else w1)"
    have step: "add_batches E s (collection_name s) n entries (i # starts) w =
        add_batches E s (collection_name s) n entries starts w2"
      using False by (simp add: Let_def batch_def w1_def w2_def)
    have c2: "collections w2 = collections w1" by (simp add: w2_def add_message_fields)
    have t1: "tagged w \<Longrightarrow> tagged w1"
      unfolding w1_def using batch_s by (intro tagged_put_batch) (auto simp: list_all_iff)
    have t2: "tagged w \<Longrightarrow> tagged w2" using t1 c2 tagged_cong by blast
    have s1: "c \<in> stored_chunks w \<or> session_id c = s" if "c \<in> stored_chunks w2" for c
    proof -
      from that have "c \<in> stored_chunks w1" using stored_chunks_cong[OF c2] by simp
      then have "c \<in> stored_chunks w \<or> c \<in> set batch"
        unfolding w1_def by (rule stored_chunks_put)
      with batch_s show ?thesis by blast
    qed
    show ?thesis
      unfolding step using Cons.IH[of w2] t2 s1 by blast
  qed
qed

lemma store_chunks_store:
  "(tagged w \<longrightarrow> tagged (snd (store_chunks E s path fname ftype chunks w)))
   \<and> (\<forall>c \<in> stored_chunks (snd (store_chunks E s path fname ftype chunks w)).
         c \<in> stored_chunks w \<or> session_id c = s)"
proof (cases "collection_error E (collection_name s)")
  case True
  then show ?thesis
    using stored_chunks_cong[of "snd (add_message E s ''system'' VECTOR_DB_FAILED_TEXT w)" w]
    by (simp add: store_chunks_def Let_def tagged_prims add_message_fields)
next
  case False
  note no_err = False
  define w2 where "w2 = get_or_create_collection (collection_name s) w"
  define w3 where "w3 = advance_minted (length chunks) w2"
  have t3: "tagged w \<Longrightarrow> tagged w3" by (simp add: w3_def w2_def tagged_prims)
  have s3: "stored_chunks w3 = stored_chunks w"
    using stored_chunks_cong[of w3 w2] by (simp add: w3_def w2_def stored_chunks_create)
  show ?thesis
  proof (cases "path_resolve E path")
    case (Inl e)
    have sc: "snd (store_chunks E s path fname ftype chunks w) =
        snd (add_message E s ''system'' (CRASH_PREFIX @ fname) w3)"
      using no_err Inl by (simp add: store_chunks_def Let_def w3_def w2_def)
    show ?thesis
      unfolding sc
      using t3 s3 stored_chunks_cong[of "snd (add_message E s ''system'' (CRASH_PREFIX @ fname) w3)" w3]
      by (simp add: tagged_prims add_message_fields)
  next
    case (Inr abs_path)
    define entries where "entries = make_entries E w2 s fname abs_path ftype chunks"
    define w4 where "w4 = advance_ticks (length chunks) w3"
    define res where
      "res = add_batches E s (collection_name s) (length chunks) entries
               (batch_starts (length chunks)) w4"
    have es: "\<forall>c \<in> set entries. session_id c = s"
      by (auto simp: entries_def dest: make_entries_session)
    have t4: "tagged w \<Longrightarrow> tagged w4" using t3 by (simp add: w4_def tagged_prims)
    have s4: "stored_chunks w4 = stored_chunks w"
      using stored_chunks_cong[of w4 w3] s3 by (simp add: w4_def)
    have r: "(tagged w4 \<longrightarrow> tagged (snd res))
       \<and> (\<forall>c \<in> stored_chunks (snd res). c \<in> stored_chunks w4 \<or> session_id c = s)"
      unfolding res_def by (rule add_batches_store[OF es])
    obtain role content where sc:
      "snd (store_chunks E s path fname ftype chunks w) =
         snd (add_message E s role content (snd res))"
      using no_err Inr
      by (cases "fst res")
        (simp_all add: store_chunks_def Let_def split_beta w3_def w2_def w4_def entries_def res_def)
    have sf: "stored_chunks (snd (add_message E s role content (snd res))) = stored_chunks (snd res)"
      by (rule stored_chunks_cong) (simp add: add_message_fields)
    show ?thesis
      unfolding sc sf using r t4 s4 by (auto intro: tagged_prims)
  qed
qed

lemma process_file_store:
  assumes "uuid_str E sid = Some s"
  shows "(tagged w \<longrightarrow> tagged (snd (process_file E sid path fname ftype w)))
   \<and> (\<forall>c \<in> stored_chunks (snd (process_file E sid path fname ftype w)).
         c \<in> stored_chunks w \<or> session_id c = s)"
proof -
  define w1 where
    "w1 = snd (add_message E s ''system'' (PROGRESS_START_PREFIX @ fname @ ''...'') w)"
  have t1: "tagged w \<Longrightarrow> tagged w1" by (simp add: w1_def tagged_prims)
  have s1: "stored_chunks w1 = stored_chunks w"
    unfolding w1_def by (rule stored_chunks_cong) (simp add: add_message_fields)
  have msg: "(tagged w \<longrightarrow> tagged (snd (add_message E s role content w1)))
      \<and> (\<forall>c \<in> stored_chunks (snd (add_message E s role content w1)).
            c \<in> stored_chunks w \<or> session_id c = s)" for role content
    using t1 s1 stored_chunks_cong[of "snd (add_message E s role content w1)" w1]
    by (simp add: tagged_prims add_message_fields)
  have st: "(tagged w \<longrightarrow> tagged (snd (store_chunks E s path fname ftype chunks w1)))
      \<and> (\<forall>c \<in> stored_chunks (snd (store_chunks E s path fname ftype chunks w1)).
            c \<in> stored_chunks w \<or> session_id c = s)" for chunks
    using store_chunks_store[of w1 E s path fname ftype chunks] t1 s1 by blast
  show ?thesis
  proof (cases "load_document E path ftype")
    case None
    then show ?thesis
      using assms msg by (simp add: process_file_def Let_def w1_def)
  next
    case (Some documents)
    note loaded = Some
    show ?thesis
    proof (cases "split_documents E documents")
      case (Inl e)
      then show ?thesis
        using assms loaded msg by (simp add: process_file_def Let_def w1_def)
    next
      case (Inr chunks)
      show ?thesis
      proof (cases chunks)
        case Nil
        then show ?thesis
          using assms loaded Inr msg by (simp add: process_file_def Let_def w1_def)
      next
        case (Cons c cs)
        have "process_file E sid path fname ftype w = store_chunks E s path fname ftype chunks w1"
          using assms loaded Inr Cons by (simp add: process_file_def Let_def w1_def)
        then show ?thesis using st by simp
      qed
    qed
  qed
qed

lemma tagged_process_file: "tagged w \<Longrightarrow> tagged (snd (process_file E sid path fname ftype w))"
proof (cases "uuid_str E sid")
  case None
  assume "tagged w"
  then show ?thesis using None by (simp add: process_file_def)
next
  case (Some s)
  assume "tagged w"
  then show ?thesis using process_file_store[OF Some] by blast
qed

lemma tagged_process_message:
  "tagged w \<Longrightarrow> tagged (snd (process_message E body sid phone h w))"
proof -
  assume a: "tagged w"
  define w2 where "w2 = snd (case uuid_str E sid of Some u \<Rightarrow> (sid, w)
                             | None \<Rightarrow> create_session E phone [] w)"
  have e2: "tagged w2"
    using a tagged_create_session[OF a, of E phone "[]"]
    by (cases "uuid_str E sid") (simp_all add: w2_def)
  show ?thesis
    unfolding process_message_def Let_def split_beta w2_def[symmetric]
    using a e2
    by (auto intro!: tagged_prims tagged_route)
qed

lemma tagged_step: "tagged w \<Longrightarrow> tagged (step E x w)"
proof (cases x)
  case (CreateSession phone title)
  assume "tagged w"
  then show ?thesis unfolding CreateSession step.simps by (rule tagged_create_session)
next
  case (AddMessage sid role content)
  assume "tagged w"
  then show ?thesis unfolding AddMessage step.simps by (rule tagged_prims)
next
  case (ProcessFile sid path fname ftype)
  assume "tagged w"
  then show ?thesis unfolding ProcessFile step.simps by (rule tagged_process_file)
next
  case (RagQuery question sid)
  assume "tagged w"
  then show ?thesis unfolding RagQuery step.simps by (rule tagged_rag_query)
next
  case (ProcessMessage body sid phone)
  assume "tagged w"
  then show ?thesis unfolding ProcessMessage step.simps by (rule tagged_process_message)
qed

lemma tagged_run: "tagged w \<Longrightarrow> tagged (run E ops w)"
proof (induction ops arbitrary: w)
  case Nil
  then show ?case by simp
next
  case (Cons x ops)
  from Cons.prems have "tagged (step E x w)" by (rule tagged_step)
  then have "tagged (run E ops (step E x w))" by (rule Cons.IH)
  then show ?case by simp
qed

lemma collection_name_inject: "collection_name a = collection_name b \<Longrightarrow> a = b"
  by (simp add: collection_name_def)

lemma retrieve_results_tagged:
  assumes "tagged w" and "c \<in> set (fst (retrieve_results E q sid k w))"
  shows "session_id c = sid"
proof -
  from assms(2) obtain entries where e: "collections w (collection_name sid) = Some entries"
    and c: "c \<in> set (collection_query E entries q k)"
    by (auto simp: retrieve_results_def Let_def split: option.splits if_splits)
  from c have "c \<in> set entries"
    by (auto simp: collection_query_def dest: in_set_takeD)
  with assms(1) e have "collection_name (session_id c) = collection_name sid"
    by (auto simp: tagged_def list_all_iff)
  then show ?thesis by (rule collection_name_inject)
qed

text \<open>
  Isolation between UUIDs. Take any run of operations from the empty store, then a call
  of \<open>process_file\<close> under session id \<open>B\<close>, then any further run. A query for a session
  id \<open>A\<close> that differs from \<open>str(uuid.UUID(B))\<close>, the spelling under which
  \<open>process_file\<close> stores, returns none of the chunks that call has stored, and every
  chunk it does return carries the session tag \<open>A\<close>.
\<close>

lemma isolation_between_uuids:
  assumes "uuid_str E B = Some sB" and "A \<noteq> sB"
    and "c \<in> stored_chunks (snd (process_file E B path fname ftype (run E earlier empty_world)))"
    and "c \<notin> stored_chunks (run E earlier empty_world)"
  shows "c \<notin> set (fst (retrieve_results E q A k
                          (run E later
                             (snd (process_file E B path fname ftype
                                     (run E earlier empty_world))))))
     \<and> (\<forall>d \<in> set (fst (retrieve_results E q A k
                          (run E later
                             (snd (process_file E B path fname ftype
                                     (run E earlier empty_world)))))).
           session_id d = A)"
proof -
  define w0 where "w0 = run E earlier empty_world"
  define w1 where "w1 = snd (process_file E B path fname ftype w0)"
  define w2 where "w2 = run E later w1"
  have t0: "tagged w0" unfolding w0_def by (rule tagged_run) (rule tagged_empty)
  have t1: "tagged w1" unfolding w1_def using t0 by (rule tagged_process_file)
  have t2: "tagged w2" unfolding w2_def using t1 by (rule tagged_run)
  have tag: "session_id c = sB"
    using process_file_store[OF assms(1), of w0 path fname ftype] assms(3,4)
    by (auto simp: w0_def)
  have all: "\<forall>d \<in> set (fst (retrieve_results E q A k w2)). session_id d = A"
    using retrieve_results_tagged[OF t2] by blast
  have "c \<notin> set (fst (retrieve_results E q A k w2))"
  proof
    assume "c \<in> set (fst (retrieve_results E q A k w2))"
    with t2 have "session_id c = A" by (rule retrieve_results_tagged)
    with tag assms(2) show False by simp
  qed
  with all show ?thesis by (simp add: w2_def w1_def w0_def)
qed

lemma isolation_between_uuids_sample:
  "sample_chunk \<in> stored_chunks
       (snd (process_file plain_env ''00000000-0000-4000-8000-000000000001'' ''/tmp/a.txt''
               ''a.txt'' ''txt'' empty_world))
   \<and> sample_chunk \<notin> stored_chunks empty_world
   \<and> fst (retrieve_results plain_env ''q'' ''00000000-0000-4000-8000-000000000001'' 5
            (run plain_env [RagQuery ''q'' ''00000000-0000-4000-8000-000000000000'']
               (snd (process_file plain_env ''00000000-0000-4000-8000-000000000001''
                       ''/tmp/a.txt'' ''a.txt'' ''txt'' empty_world))))
       = [sample_chunk]
   \<and> sample_chunk \<notin> set (fst (retrieve_results plain_env ''q''
            ''00000000-0000-4000-8000-000000000000'' 5
            (run plain_env [RagQuery ''q'' ''00000000-0000-4000-8000-000000000000'']
               (snd (process_file plain_env ''00000000-0000-4000-8000-000000000001''
                       ''/tmp/a.txt'' ''a.txt'' ''txt'' empty_world)))))"
proof -
  let ?A = "''00000000-0000-4000-8000-000000000000''"
  let ?B = "''00000000-0000-4000-8000-000000000001''"
  let ?w1 = "snd (process_file plain_env ?B ''/tmp/a.txt'' ''a.txt'' ''txt'' empty_world)"
  have r0: "run plain_env [] empty_world = empty_world" by simp
  have a: "uuid_str plain_env ?B = Some ?B" by code_simp
  have b: "?A \<noteq> ?B" by simp
  have coll: "collections ?w1 (collection_name ?B) = Some [sample_chunk]" by code_simp
  then have c: "sample_chunk \<in> stored_chunks ?w1"
    unfolding stored_chunks_def by (intro CollectI exI[of _ "collection_name ?B"] exI[of _ "[sample_chunk]"]) simp
  have d: "sample_chunk \<notin> stored_chunks empty_world"
    by (simp add: stored_chunks_def empty_world_def)
  have own: "fst (retrieve_results plain_env ''q'' ?B 5
            (run plain_env [RagQuery ''q'' ?A] ?w1)) = [sample_chunk]"
    by code_simp
  from isolation_between_uuids[of plain_env ?B ?B ?A sample_chunk "''/tmp/a.txt''" "''a.txt''"
      "''txt''" "[]" "''q''" 5 "[RagQuery ''q'' ?A]", unfolded r0, OF a b c d]
  have "sample_chunk \<notin> set (fst (retrieve_results plain_env ''q'' ?A 5
            (run plain_env [RagQuery ''q'' ?A] ?w1)))"
    by blast
  with c d own show ?thesis by blast
qed



end
